theory Spec2Isabelle
  imports Main "HOL-Library.AList" "HOL-Library.Signed_Division" "HOL-Library.List_Lexorder"
begin

section \<open>Data model of masternode-payments.cpp\<close>

text \<open>
  Amounts (\<open>CAmount\<close>, a 64-bit integer bounded by the money supply) and block heights
  (\<open>int\<close>) are modelled as mathematical integers: no computation of the modelled
  functions leaves the machine range on heights and amounts of a real chain. Hashes
  (\<open>uint256\<close>) are natural numbers, scripts are byte strings compared bytewise.
  A \<open>std::map\<close> is an association list: \<open>count\<close> is \<open>map_of\<close>, \<open>operator[]\<close> with an
  assignment is \<open>AList.update\<close>, \<open>erase\<close> by key is \<open>AList.delete\<close>, and an iteration
  visits the entries of the list. No modelled loop depends on the order of the keys.
\<close>

type_synonym CAmount = int
type_synonym uint256 = nat
type_synonym CScript = "nat list"
type_synonym COutPoint = "uint256 \<times> nat"

record CTxIn =
  prevout :: COutPoint
  scriptSig :: CScript
  nSequence :: nat

text \<open>\<open>CTxIn()\<close>: the null outpoint, no script, the final sequence number.\<close>

definition CTxIn_null :: CTxIn where
  "CTxIn_null = \<lparr>prevout = (0, 4294967295), scriptSig = [], nSequence = 4294967295\<rparr>"

record CTxOut =
  nValue :: CAmount
  scriptPubKey :: CScript

record CMasternodePayee =
  payee_scriptPubKey :: CScript
  mnlevel :: nat
  payee_vin :: CTxIn
  nVotes :: int

record CMasternodeBlockPayees =
  tally_nBlockHeight :: int
  vecPayments :: "CMasternodePayee list"

record CMasternodePaymentWinner =
  vinMasternode :: CTxIn
  nBlockHeight :: int
  payee :: CScript
  payeeLevel :: nat
  payeeVin :: CTxIn
  vchSig :: "nat list"

text \<open>
  The object \<open>masternodePayments\<close>: the votes by hash, the tallies by height and the
  height of the last batch of votes this node produced. \<open>mapSeenSyncMNW\<close> is the table
  of the sync coordinator that \<open>CleanPaymentList\<close> evicts from.
\<close>

record CMasternodePayments =
  mapMasternodePayeeVotes :: "(uint256 \<times> CMasternodePaymentWinner) list"
  mapMasternodeBlocks :: "(int \<times> CMasternodeBlockPayees) list"
  nLastBlockHeight :: int
  mapSeenSyncMNW :: "(uint256 \<times> int) list"

section \<open>The collaborators of the subsystem\<close>

text \<open>
  The chain, the consensus parameters, the sporks, the sync state, the budget, the
  masternode registry \<open>mnodeman\<close>, the signer and the node's own configuration are
  code outside masternode-payments.cpp. Each call into them is a field of the
  environment: whatever the collaborator answers at the time of the call.
\<close>

record CBlockIndex =
  phashBlock :: uint256
  pindex_nHeight :: int

record CMasternode =
  mn_vin :: CTxIn
  mn_Level :: nat
  protocolVersion :: int
  pubKeyCollateralAddress :: CScript
  pubKeyMasternode :: nat

record Env =
  chainActive_Tip :: "CBlockIndex option"
  TRY_LOCK_cs_main :: bool
  TRY_LOCK_cs_main_Misbehaving :: bool
  mapBlockIndex :: "uint256 \<Rightarrow> CBlockIndex option"
  GetBlockHash :: "int \<Rightarrow> bool"
  LevelValue_MIN :: nat
  LevelValue_MAX :: nat
  MasternodeCountDrift :: int
  GetBudgetCycleBlocks :: int
  GetTreasuryRewardScriptAtHeight :: "int \<Rightarrow> (CScript \<times> int) list"
  IsTreasuryBlock :: "int \<Rightarrow> bool"
  GetTreasuryAward :: "int \<Rightarrow> CAmount"
  GetMasternodePayment :: "int \<Rightarrow> CAmount \<Rightarrow> bool \<Rightarrow> nat \<Rightarrow> int \<Rightarrow> bool \<Rightarrow> CAmount"
  ActiveProtocol :: int
  IsZerocoinMint :: "CScript \<Rightarrow> bool"
  SPORK_8_MASTERNODE_PAYMENT_ENFORCEMENT :: bool
  SPORK_13_ENABLE_SUPERBLOCKS :: bool
  SPORK_17_TREASURY_PAYMENT_ENFORCEMENT :: int
  SPORK_18_NEW_MASTERNODE_TIERS :: bool
  IsBlockchainSynced :: bool
  IsSynced :: bool
  fLiteMode :: bool
  IsBudgetPaymentBlock :: "int \<Rightarrow> bool"
  mnodeman_size :: int
  mnodeman_stable_size :: int
  CountEnabled :: "nat \<Rightarrow> int"
  Find_payee :: "CScript \<Rightarrow> CMasternode option"
  Find_vin :: "CTxIn \<Rightarrow> CMasternode option"
  GetMasternodeRank :: "CTxIn \<Rightarrow> int \<Rightarrow> int \<Rightarrow> int"
  GetCurrentMasterNode :: "nat \<Rightarrow> CMasternode option"
  GetNextMasternodeInQueueForPayment :: "int \<Rightarrow> nat \<Rightarrow> CMasternode option"
  GetHash :: "CMasternodePaymentWinner \<Rightarrow> uint256"
  VerifyMessage :: "nat \<Rightarrow> nat list \<Rightarrow> COutPoint \<times> int \<times> CScript \<Rightarrow> bool"
  SignMessage :: "COutPoint \<times> int \<times> CScript \<Rightarrow> nat list option"
  fMasterNode :: bool
  activeMasternode_vin :: CTxIn
  SetKey :: "nat option"

text \<open>
  \<open>GetBlockHash env h\<close> says whether \<open>GetBlockHash(blockHash, h)\<close> succeeds;
  \<open>mapBlockIndex env k\<close> is the entry found under \<open>k\<close> when it is there and its pointer is
  not null; \<open>TRY_LOCK_cs_main\<close> is whether the try-lock on the chain succeeds where a
  function reads the tip, and \<open>TRY_LOCK_cs_main_Misbehaving\<close> whether it succeeds where the
  message handler is about to score a peer;
  \<open>SPORK_17_TREASURY_PAYMENT_ENFORCEMENT\<close> is the value \<open>GetSporkValue\<close> returns and the
  other spork fields are what \<open>IsSporkActive\<close> returns; \<open>Find_payee\<close> and \<open>Find_vin\<close> are
  \<open>mnodeman.Find\<close> on a script and on a collateral input; \<open>GetHash env w\<close> is
  \<open>w.GetHash()\<close>. The message that is signed, the concatenation of the voter's outpoint,
  the height and the payee script, is the triple of the three. \<open>SetKey\<close> is the public
  key that \<open>obfuScationSigner.SetKey\<close> derives, when it succeeds.
\<close>

section \<open>The tally of one height\<close>

definition MNPAYMENTS_SIGNATURES_REQUIRED :: int where
  "MNPAYMENTS_SIGNATURES_REQUIRED = 6"

definition MNPAYMENTS_SIGNATURES_TOTAL :: int where
  "MNPAYMENTS_SIGNATURES_TOTAL = 10"

text \<open>The tally \<open>CMasternodeBlockPayees(nBlockHeightIn)\<close> as it is constructed: no payee.\<close>

definition CMasternodeBlockPayees_new :: "int \<Rightarrow> CMasternodeBlockPayees" where
  "CMasternodeBlockPayees_new nBlockHeightIn =
     \<lparr>tally_nBlockHeight = nBlockHeightIn, vecPayments = []\<rparr>"

text \<open>
  Modelled from the spec: \<open>CMasternodeBlockPayees::AddPayee\<close> is declared in
  masternode-payments.h, which is not among the sources. The spec (4.1): "locate or
  create the PayeeRecord with the same (script, tier) and increment its votes". The
  first record with the script and the tier gets the increment; when there is none, a
  record with the increment as its votes is appended.
\<close>

fun AddPayee_vec ::
  "nat \<Rightarrow> CScript \<Rightarrow> CTxIn \<Rightarrow> int \<Rightarrow> CMasternodePayee list \<Rightarrow> CMasternodePayee list" where
  "AddPayee_vec level payeeIn vinIn nIncrement [] =
     [\<lparr>payee_scriptPubKey = payeeIn, mnlevel = level, payee_vin = vinIn, nVotes = nIncrement\<rparr>]"
| "AddPayee_vec level payeeIn vinIn nIncrement (p # ps) =
     (if payee_scriptPubKey p = payeeIn \<and> mnlevel p = level
      then p\<lparr>nVotes := nVotes p + nIncrement\<rparr> # ps
      else p # AddPayee_vec level payeeIn vinIn nIncrement ps)"

definition AddPayee ::
  "nat \<Rightarrow> CScript \<Rightarrow> CTxIn \<Rightarrow> int \<Rightarrow> CMasternodeBlockPayees \<Rightarrow> CMasternodeBlockPayees" where
  "AddPayee level payeeIn vinIn nIncrement b =
     b\<lparr>vecPayments := AddPayee_vec level payeeIn vinIn nIncrement (vecPayments b)\<rparr>"

text \<open>The record of a tally with a given script and tier, the first one if there are several.\<close>

definition find_payee :: "CMasternodePayee list \<Rightarrow> CScript \<Rightarrow> nat \<Rightarrow> CMasternodePayee option" where
  "find_payee vec script level =
     find (\<lambda>p. payee_scriptPubKey p = script \<and> mnlevel p = level) vec"

section \<open>Admission of a vote: AddWinningMasternode\<close>

text \<open>
  \<open>mapMasternodeBlocks[h]\<close>: the tally stored under \<open>h\<close>; \<open>operator[]\<close> on a missing key
  gives a default-constructed tally.
\<close>

definition blocks_at :: "(int \<times> CMasternodeBlockPayees) list \<Rightarrow> int \<Rightarrow> CMasternodeBlockPayees" where
  "blocks_at m h = (case map_of m h of Some b \<Rightarrow> b | None \<Rightarrow> CMasternodeBlockPayees_new 0)"

definition AddWinningMasternode ::
  "Env \<Rightarrow> CMasternodePayments \<Rightarrow> CMasternodePaymentWinner \<Rightarrow> bool \<times> CMasternodePayments" where
  "AddWinningMasternode env s winnerIn =
     (if \<not> GetBlockHash env (nBlockHeight winnerIn - 100) then (False, s)
      else if map_of (mapMasternodePayeeVotes s) (GetHash env winnerIn) \<noteq> None then (False, s)
      else
        let s1 = s\<lparr>mapMasternodePayeeVotes :=
                     AList.update (GetHash env winnerIn) winnerIn (mapMasternodePayeeVotes s)\<rparr>;
            s2 = (if map_of (mapMasternodeBlocks s1) (nBlockHeight winnerIn) = None
                  then s1\<lparr>mapMasternodeBlocks :=
                         AList.update (nBlockHeight winnerIn)
                           (CMasternodeBlockPayees_new (nBlockHeight winnerIn))
                           (mapMasternodeBlocks s1)\<rparr>
                  else s1)
        in (True,
            s2\<lparr>mapMasternodeBlocks :=
                 AList.update (nBlockHeight winnerIn)
                   (AddPayee (payeeLevel winnerIn) (payee winnerIn) (payeeVin winnerIn) 1
                      (blocks_at (mapMasternodeBlocks s2) (nBlockHeight winnerIn)))
                   (mapMasternodeBlocks s2)\<rparr>))"

section \<open>GetOldestBlock and GetNewestBlock\<close>

text \<open>\<open>std::numeric_limits<int>::max()\<close> of a 32-bit \<open>int\<close>.\<close>

definition INT_MAX :: int where
  "INT_MAX = 2147483647"

fun GetOldestBlock_loop :: "int \<Rightarrow> (int \<times> CMasternodeBlockPayees) list \<Rightarrow> int" where
  "GetOldestBlock_loop nOldestBlock [] = nOldestBlock"
| "GetOldestBlock_loop nOldestBlock (it # rest) =
     GetOldestBlock_loop (if fst it < nOldestBlock then fst it else nOldestBlock) rest"

definition GetOldestBlock :: "CMasternodePayments \<Rightarrow> int" where
  "GetOldestBlock s = GetOldestBlock_loop INT_MAX (mapMasternodeBlocks s)"

fun GetNewestBlock_loop :: "int \<Rightarrow> (int \<times> CMasternodeBlockPayees) list \<Rightarrow> int" where
  "GetNewestBlock_loop nNewestBlock [] = nNewestBlock"
| "GetNewestBlock_loop nNewestBlock (it # rest) =
     GetNewestBlock_loop (if fst it > nNewestBlock then fst it else nNewestBlock) rest"

definition GetNewestBlock :: "CMasternodePayments \<Rightarrow> int" where
  "GetNewestBlock s = GetNewestBlock_loop 0 (mapMasternodeBlocks s)"

section \<open>The tally check: IsTransactionValid\<close>

text \<open>
  A transaction as the subsystem reads it: its outputs, and what
  \<open>HasZerocoinSpendInputs()\<close> answers for its inputs.
\<close>

record CTransaction =
  vout :: "CTxOut list"
  HasZerocoinSpendInputs :: bool

text \<open>The masternode count the validator hands to the reward curve.\<close>

definition nMasternode_Drift_Count :: "Env \<Rightarrow> int" where
  "nMasternode_Drift_Count env =
     (if SPORK_8_MASTERNODE_PAYMENT_ENFORCEMENT env
      then mnodeman_stable_size env + MasternodeCountDrift env
      else mnodeman_size env + MasternodeCountDrift env)"

text \<open>
  The test both loops of \<open>IsTransactionValid\<close> make before they look at a payee: a payee
  below the quorum, or outside the top tier while the new tiers are off, is passed over.
\<close>

definition skip_payee :: "Env \<Rightarrow> CMasternodePayee \<Rightarrow> bool" where
  "skip_payee env p \<longleftrightarrow>
     nVotes p < MNPAYMENTS_SIGNATURES_REQUIRED
     \<or> (\<not> SPORK_18_NEW_MASTERNODE_TIERS env \<and> mnlevel p \<noteq> LevelValue_MAX env)"

text \<open>
  The first loop fills \<open>max_signatures\<close>: \<open>emplace\<close> inserts the tier with the votes of
  the payee when the tier is new, and the stored votes are raised when the payee has more.
\<close>

fun max_signatures_loop ::
  "Env \<Rightarrow> CMasternodePayee list \<Rightarrow> (nat \<times> int) list \<Rightarrow> (nat \<times> int) list" where
  "max_signatures_loop env [] max_signatures = max_signatures"
| "max_signatures_loop env (p # rest) max_signatures =
     (if skip_payee env p then max_signatures_loop env rest max_signatures
      else case map_of max_signatures (mnlevel p) of
             None \<Rightarrow> max_signatures_loop env rest
                       (AList.update (mnlevel p) (nVotes p) max_signatures)
           | Some n \<Rightarrow>
               if nVotes p > n
               then max_signatures_loop env rest
                      (AList.update (mnlevel p) (nVotes p) max_signatures)
               else max_signatures_loop env rest max_signatures)"

text \<open>\<open>std::find_if\<close> over the outputs: the first output with the script and enough value.\<close>

definition payee_out :: "CMasternodePayee \<Rightarrow> CAmount \<Rightarrow> CTxOut list \<Rightarrow> CTxOut option" where
  "payee_out p requiredMasternodePayment outs =
     find (\<lambda>out. payee_scriptPubKey p = scriptPubKey out
                  \<and> nValue out \<ge> requiredMasternodePayment) outs"

text \<open>
  The second loop: a payee that is paid takes its tier out of \<open>max_signatures\<close>, and the
  check succeeds as soon as the table is empty; the end of the loop is a failure.
\<close>

fun IsTransactionValid_loop ::
  "Env \<Rightarrow> int \<Rightarrow> CTransaction \<Rightarrow> CAmount \<Rightarrow> bool \<Rightarrow> int \<Rightarrow>
   CMasternodePayee list \<Rightarrow> (nat \<times> int) list \<Rightarrow> bool" where
  "IsTransactionValid_loop env nHeight txNew nBlockValue fProofOfStake drift [] max_signatures = False"
| "IsTransactionValid_loop env nHeight txNew nBlockValue fProofOfStake drift (p # rest) max_signatures =
     (if skip_payee env p
      then IsTransactionValid_loop env nHeight txNew nBlockValue fProofOfStake drift rest max_signatures
      else
        let requiredMasternodePayment =
              GetMasternodePayment env nHeight nBlockValue fProofOfStake (mnlevel p) drift
                (HasZerocoinSpendInputs txNew)
        in if payee_out p requiredMasternodePayment (vout txNew) \<noteq> None
           then
             let max_signatures' =
                   (if map_of max_signatures (mnlevel p) \<noteq> None
                    then AList.delete (mnlevel p) max_signatures else max_signatures)
             in if max_signatures' \<noteq> []
                then IsTransactionValid_loop env nHeight txNew nBlockValue fProofOfStake drift
                       rest max_signatures'
                else True
           else IsTransactionValid_loop env nHeight txNew nBlockValue fProofOfStake drift
                  rest max_signatures)"

definition CMasternodeBlockPayees_IsTransactionValid ::
  "Env \<Rightarrow> CMasternodeBlockPayees \<Rightarrow> CTransaction \<Rightarrow> CAmount \<Rightarrow> bool \<Rightarrow> bool" where
  "CMasternodeBlockPayees_IsTransactionValid env b txNew nBlockValue fProofOfStake =
     (let max_signatures = max_signatures_loop env (vecPayments b) []
      in if max_signatures = [] then True
         else IsTransactionValid_loop env (tally_nBlockHeight b) txNew nBlockValue fProofOfStake
                (nMasternode_Drift_Count env) (vecPayments b) max_signatures)"

definition CMasternodePayments_IsTransactionValid ::
  "Env \<Rightarrow> CMasternodePayments \<Rightarrow> CTransaction \<Rightarrow> int \<Rightarrow> CAmount \<Rightarrow> bool \<Rightarrow> bool" where
  "CMasternodePayments_IsTransactionValid env s txNew nHeight nBlockValue fProofOfStake =
     (case map_of (mapMasternodeBlocks s) nHeight of
        Some b \<Rightarrow> CMasternodeBlockPayees_IsTransactionValid env b txNew nBlockValue fProofOfStake
      | None \<Rightarrow> True)"

text \<open>A payee is paid by a transaction: some output has its script and the required value.\<close>

definition paid :: "Env \<Rightarrow> int \<Rightarrow> CTransaction \<Rightarrow> CAmount \<Rightarrow> bool \<Rightarrow> int \<Rightarrow> CMasternodePayee \<Rightarrow> bool" where
  "paid env nHeight tx v pos drift p \<longleftrightarrow>
     list_ex (\<lambda>out. scriptPubKey out = payee_scriptPubKey p
        \<and> nValue out \<ge> GetMasternodePayment env nHeight v pos (mnlevel p) drift (HasZerocoinSpendInputs tx)) (vout tx)"

section \<open>The value of a block: IsBlockValueValid\<close>

text \<open>
  A block as \<open>IsBlockValueValid\<close> reads it. \<open>nTime\<close> is an unsigned 32-bit time, compared
  with the 64-bit value of a spork as integers.
\<close>

record CBlock =
  hashPrevBlock :: uint256
  nTime :: int
  IsProofOfStake :: bool
  vtx :: "CTransaction list"

text \<open>
  The height of the block, from the tip when the block extends it and from the block index
  otherwise; \<open>0\<close> when the parent is not found.
\<close>

definition resolve_nHeight :: "Env \<Rightarrow> CBlockIndex \<Rightarrow> CBlock \<Rightarrow> int" where
  "resolve_nHeight env pindexPrev block =
     (if phashBlock pindexPrev = hashPrevBlock block then pindex_nHeight pindexPrev + 1
      else case mapBlockIndex env (hashPrevBlock block) of
             Some mi \<Rightarrow> pindex_nHeight mi + 1
           | None \<Rightarrow> 0)"

text \<open>
  \<open>block.IsProofOfStake() ? block.vtx[1] : block.vtx[0]\<close>. Indexing past the end of the
  vector is undefined in the source; the model has no result there.
\<close>

definition coinbase_or_coinstake :: "CBlock \<Rightarrow> CTransaction option" where
  "coinbase_or_coinstake block =
     (let k = (if IsProofOfStake block then 1 else 0 :: nat)
      in if k < length (vtx block) then Some (vtx block ! k) else None)"

text \<open>
  The two nested loops that count the treasury payees with an output of their script and
  exactly their share. \<open>treasuryPayment * payee.second / 100\<close> is a division of 64-bit
  integers, which truncates.
\<close>

fun treasury_found_loop :: "CAmount \<Rightarrow> CTxOut list \<Rightarrow> (CScript \<times> int) list \<Rightarrow> int \<Rightarrow> int" where
  "treasury_found_loop treasuryPayment outs [] found = found"
| "treasury_found_loop treasuryPayment outs (p # rest) found =
     treasury_found_loop treasuryPayment outs rest
       (if list_ex (\<lambda>out. scriptPubKey out = fst p
                          \<and> nValue out = (treasuryPayment * snd p) sdiv 100) outs
        then found + 1 else found)"

text \<open>The rest of the function, from the test of the sync state on.\<close>

definition budget_value_rules :: "Env \<Rightarrow> int \<Rightarrow> CAmount \<Rightarrow> CAmount \<Rightarrow> bool" where
  "budget_value_rules env nHeight nExpectedValue nMinted =
     (if \<not> IsSynced env
      then (if nHeight smod GetBudgetCycleBlocks env < 100 then True
            else if nMinted > nExpectedValue then False else True)
      else if \<not> SPORK_13_ENABLE_SUPERBLOCKS env then nMinted \<le> nExpectedValue
      else if IsBudgetPaymentBlock env nHeight then True
      else if nMinted > nExpectedValue then False else True)"

text \<open>The function from the treasury check on, once the height is resolved.\<close>

definition IsBlockValueValid_at :: "Env \<Rightarrow> CBlock \<Rightarrow> int \<Rightarrow> CAmount \<Rightarrow> CAmount \<Rightarrow> bool option" where
  "IsBlockValueValid_at env block nHeight nExpectedValue nMinted =
     (if IsTreasuryBlock env nHeight
      then (case coinbase_or_coinstake block of
              None \<Rightarrow> None
            | Some txNew \<Rightarrow>
                let treasuryPayees = GetTreasuryRewardScriptAtHeight env nHeight;
                    treasuryPayment = GetTreasuryAward env nHeight;
                    found = treasury_found_loop treasuryPayment (vout txNew) treasuryPayees 0
                in if found \<noteq> int (length treasuryPayees)
                      \<and> nTime block > SPORK_17_TREASURY_PAYMENT_ENFORCEMENT env
                   then Some False
                   else Some (budget_value_rules env nHeight nExpectedValue nMinted))
      else Some (budget_value_rules env nHeight nExpectedValue nMinted))"

definition IsBlockValueValid :: "Env \<Rightarrow> CBlock \<Rightarrow> CAmount \<Rightarrow> CAmount \<Rightarrow> bool option" where
  "IsBlockValueValid env block nExpectedValue nMinted =
     (case chainActive_Tip env of
        None \<Rightarrow> Some True
      | Some pindexPrev \<Rightarrow>
          IsBlockValueValid_at env block (resolve_nHeight env pindexPrev block)
            nExpectedValue nMinted)"

text \<open>A treasury payee is paid by the outputs: one of them has its script and its exact share.\<close>

definition treasury_paid :: "CAmount \<Rightarrow> CTxOut list \<Rightarrow> CScript \<times> int \<Rightarrow> bool" where
  "treasury_paid treasuryPayment outs p \<longleftrightarrow>
     list_ex (\<lambda>out. scriptPubKey out = fst p
                     \<and> nValue out = (treasuryPayment * snd p) sdiv 100) outs"

section \<open>The payee of a height: GetBlockPayee\<close>

text \<open>
  Modelled from the spec: \<open>CMasternodeBlockPayees::GetPayee\<close> is declared in
  masternode-payments.h, which is not among the sources. The spec (4.1, \<open>payee_for\<close>):
  "returns the script of the PayeeRecord with the highest votes for that (height, tier);
  ties broken by lowest script bytewise". \<open>better_payee p q\<close> says that \<open>p\<close> wins against
  \<open>q\<close>; scripts are compared as byte strings, in the lexicographic order.
\<close>

definition better_payee :: "CMasternodePayee \<Rightarrow> CMasternodePayee \<Rightarrow> bool" where
  "better_payee p q \<longleftrightarrow>
     nVotes p > nVotes q
     \<or> (nVotes p = nVotes q \<and> payee_scriptPubKey p < payee_scriptPubKey q)"

fun GetPayee_loop ::
  "nat \<Rightarrow> CMasternodePayee list \<Rightarrow> CMasternodePayee option \<Rightarrow> CMasternodePayee option" where
  "GetPayee_loop level [] best = best"
| "GetPayee_loop level (p # ps) best =
     GetPayee_loop level ps
       (if mnlevel p = level \<and> (case best of None \<Rightarrow> True | Some q \<Rightarrow> better_payee p q)
        then Some p else best)"

definition GetPayee :: "CMasternodeBlockPayees \<Rightarrow> nat \<Rightarrow> CScript option" where
  "GetPayee b level = map_option payee_scriptPubKey (GetPayee_loop level (vecPayments b) None)"

text \<open>\<open>CMasternodePayments::GetBlockPayee\<close>: the payee of the tally at the height, if there is one.\<close>

definition GetBlockPayee :: "CMasternodePayments \<Rightarrow> int \<Rightarrow> nat \<Rightarrow> CScript option" where
  "GetBlockPayee s nHeight level =
     (case map_of (mapMasternodeBlocks s) nHeight of
        Some b \<Rightarrow> GetPayee b level
      | None \<Rightarrow> None)"

section \<open>The builder: FillBlockPayee\<close>

text \<open>
  \<open>CTxOut()\<close> is the null output, and \<open>vout.resize(n)\<close> cuts the vector to \<open>n\<close> outputs or
  fills it up with null outputs.
\<close>

definition CTxOut_null :: CTxOut where
  "CTxOut_null = \<lparr>nValue = - 1, scriptPubKey = []\<rparr>"

definition resize :: "nat \<Rightarrow> CTxOut list \<Rightarrow> CTxOut list" where
  "resize n outs = take n outs @ replicate (n - length outs) CTxOut_null"

text \<open>\<open>vout[j].nValue -= amount\<close>.\<close>

definition subtract_at :: "nat \<Rightarrow> CAmount \<Rightarrow> CTxOut list \<Rightarrow> CTxOut list" where
  "subtract_at j amount outs = outs[j := (outs ! j)\<lparr>nValue := nValue (outs ! j) - amount\<rparr>]"

text \<open>
  The variables that the loop over the tiers carries: the outputs of \<open>txNew\<close>, \<open>level\<close>
  and \<open>outputs\<close>. \<open>level\<close> starts at \<open>CMasternode::LevelValue::MIN\<close> and \<open>outputs\<close> at 1;
  the tests \<open>level == 1\<close> of the two branches compare with the literal.
\<close>

record fill_state =
  fs_vout :: "CTxOut list"
  fs_level :: nat
  fs_outputs :: nat

text \<open>
  The payee of a tier: the payee of the tally, else the collateral script of the current
  masternode of the tier, else none (\<open>hasPayment = false\<close>).
\<close>

definition fill_payee :: "Env \<Rightarrow> CMasternodePayments \<Rightarrow> int \<Rightarrow> nat \<Rightarrow> CScript option" where
  "fill_payee env s nHeight level =
     (case GetBlockPayee s nHeight level of
        Some script \<Rightarrow> Some script
      | None \<Rightarrow>
          (case GetCurrentMasterNode env level of
             Some winningNode \<Rightarrow> Some (pubKeyCollateralAddress winningNode)
           | None \<Rightarrow> None))"

text \<open>
  The proof-of-stake branch. The payment is appended at index \<open>i\<close>, and subtracted from the
  stake outputs \<open>vout[1..outputs]\<close> unless \<open>vout[1]\<close> is a zerocoin mint. On an empty
  vector \<open>i - 1\<close> wraps around and \<open>vout[1]\<close> is read past the end, which is undefined in
  the source: the model has no result there. The division of the 64-bit payment by the
  number of outputs truncates.
\<close>

definition fill_pos_step :: "Env \<Rightarrow> CScript \<Rightarrow> CAmount \<Rightarrow> fill_state \<Rightarrow> fill_state option" where
  "fill_pos_step env script masternodePayment st =
     (let i = length (fs_vout st);
          outputs = (if fs_level st = 1 then i - 1 else fs_outputs st);
          outs = fs_vout st @ [\<lparr>nValue = masternodePayment, scriptPubKey = script\<rparr>]
      in if i = 0 \<or> \<not> outputs < length outs then None
         else Some (st\<lparr>fs_outputs := outputs,
                fs_vout :=
                  (if \<not> IsZerocoinMint env (scriptPubKey (outs ! 1))
                   then (if outputs = 1 then subtract_at 1 masternodePayment outs
                         else if outputs > 1
                         then
                           let mnPaymentSplit = masternodePayment sdiv int outputs;
                               mnPaymentRemainder = masternodePayment - mnPaymentSplit * int outputs
                           in subtract_at outputs mnPaymentRemainder
                                (fold (\<lambda>j. subtract_at j mnPaymentSplit) [1..<Suc outputs] outs)
                         else outs)
                   else outs)\<rparr>))"

text \<open>The proof-of-work branch: the payment is output \<open>level\<close> and is taken from output 0.\<close>

definition fill_pow_step :: "CAmount \<Rightarrow> CScript \<Rightarrow> CAmount \<Rightarrow> fill_state \<Rightarrow> fill_state" where
  "fill_pow_step nBlockValue script masternodePayment st =
     (let level = fs_level st;
          outs = (resize (1 + level) (fs_vout st))
                   [level := \<lparr>nValue = masternodePayment, scriptPubKey = script\<rparr>]
      in st\<lparr>fs_vout :=
              (if level = 1
               then outs[0 := (outs ! 0)\<lparr>nValue := nBlockValue - masternodePayment\<rparr>]
               else subtract_at 0 masternodePayment outs)\<rparr>)"

text \<open>One round of the loop over the tiers; \<open>level\<close> counts the payments made.\<close>

definition fill_level ::
  "Env \<Rightarrow> CMasternodePayments \<Rightarrow> int \<Rightarrow> bool \<Rightarrow> bool \<Rightarrow> CAmount \<Rightarrow> nat \<Rightarrow> fill_state
   \<Rightarrow> fill_state option" where
  "fill_level env s nHeight fProofOfStake fZSPLStake nBlockValue level st =
     (let masternodePayment =
            GetMasternodePayment env nHeight nBlockValue fProofOfStake level 0 fZSPLStake
      in case fill_payee env s nHeight level of
           None \<Rightarrow> Some st
         | Some script \<Rightarrow>
             map_option (\<lambda>st'. st'\<lparr>fs_level := fs_level st' + 1\<rparr>)
               (if fProofOfStake then fill_pos_step env script masternodePayment st
                else Some (fill_pow_step nBlockValue script masternodePayment st)))"

fun fill_loop :: "(nat \<Rightarrow> fill_state \<Rightarrow> fill_state option) \<Rightarrow> nat list \<Rightarrow> fill_state
   \<Rightarrow> fill_state option" where
  "fill_loop body [] st = Some st"
| "fill_loop body (level # levels) st =
     (case body level st of None \<Rightarrow> None | Some st' \<Rightarrow> fill_loop body levels st')"

definition fill_levels :: "Env \<Rightarrow> nat list" where
  "fill_levels env =
     [(if SPORK_18_NEW_MASTERNODE_TIERS env then LevelValue_MIN env else LevelValue_MAX env)
        ..< Suc (LevelValue_MAX env)]"

definition CMasternodePayments_FillBlockPayee ::
  "Env \<Rightarrow> CMasternodePayments \<Rightarrow> CTransaction \<Rightarrow> CAmount \<Rightarrow> bool \<Rightarrow> bool \<Rightarrow> CAmount
   \<Rightarrow> CTransaction option" where
  "CMasternodePayments_FillBlockPayee env s txNew nFees fProofOfStake fZSPLStake nBlockValue =
     (case chainActive_Tip env of
        None \<Rightarrow> Some txNew
      | Some pindexPrev \<Rightarrow>
          map_option (\<lambda>st. txNew\<lparr>vout := fs_vout st\<rparr>)
            (fill_loop
               (fill_level env s (pindex_nHeight pindexPrev + 1) fProofOfStake fZSPLStake nBlockValue)
               (fill_levels env)
               \<lparr>fs_vout = vout txNew, fs_level = LevelValue_MIN env, fs_outputs = 1\<rparr>))"

text \<open>
  The sum of the output values, and the outputs that the builder appends: for every tier
  with a payee, in the order of the tiers, the amount of the reward curve at drift 0 to
  the payee.
\<close>

definition total_out :: "CTxOut list \<Rightarrow> CAmount" where
  "total_out outs = sum_list (map nValue outs)"

definition payment_out ::
  "Env \<Rightarrow> CMasternodePayments \<Rightarrow> int \<Rightarrow> bool \<Rightarrow> bool \<Rightarrow> CAmount \<Rightarrow> nat \<Rightarrow> CTxOut option" where
  "payment_out env s nHeight fProofOfStake fZSPLStake nBlockValue level =
     map_option
       (\<lambda>script. \<lparr>nValue = GetMasternodePayment env nHeight nBlockValue fProofOfStake level 0 fZSPLStake,
                   scriptPubKey = script\<rparr>)
       (fill_payee env s nHeight level)"

definition paid_outputs ::
  "Env \<Rightarrow> CMasternodePayments \<Rightarrow> int \<Rightarrow> bool \<Rightarrow> bool \<Rightarrow> CAmount \<Rightarrow> nat list \<Rightarrow> CTxOut list" where
  "paid_outputs env s nHeight fProofOfStake fZSPLStake nBlockValue levels =
     List.map_filter (payment_out env s nHeight fProofOfStake fZSPLStake nBlockValue) levels"

text \<open>
  The charge of a payment to the stake outputs in the words of the spec (4.3,
  proof-of-stake path): "if only one non-zero stake output, subtract in full; if multiple
  (split stake), divide payment evenly across them, with any remainder charged to the
  last stake output". \<open>spec_stake_share outputs payment j\<close> is what output \<open>j\<close> is charged
  when the stake outputs are \<open>vout[1..outputs]\<close>: the quotient of the payment by their
  number, and for the last of them the remainder too (with one stake output that is the
  whole payment); output 0 and the outputs after the stake are charged nothing.
  \<open>spec_charge_stake\<close> takes the shares from the outputs. It is compared with the loop of
  the source in the theorems.
\<close>

definition spec_stake_share :: "nat \<Rightarrow> CAmount \<Rightarrow> nat \<Rightarrow> CAmount" where
  "spec_stake_share outputs payment j =
     (if 1 \<le> j \<and> j \<le> outputs
      then payment sdiv int outputs
           + (if j = outputs then payment - (payment sdiv int outputs) * int outputs else 0)
      else 0)"

definition spec_charge_stake :: "nat \<Rightarrow> CAmount \<Rightarrow> CTxOut list \<Rightarrow> CTxOut list" where
  "spec_charge_stake outputs payment outs =
     map (\<lambda>(j, out). out\<lparr>nValue := nValue out - spec_stake_share outputs payment j\<rparr>)
       (enumerate 0 outs)"


section \<open>The inbound vote handler: ProcessMessageMasternodePayments\<close>

text \<open>
  What the handler does to the outside: the score it gives the peer, the requests it
  makes to the registry, the notice to the sync coordinator and the relay of a vote.
\<close>

datatype effect =
    Misbehaving int
  | DsegUpdate
  | AskForMN CTxIn
  | AddedMasternodeWinner uint256
  | RelayInv uint256

text \<open>
  Modelled from the spec: \<open>CMasternodePayments::CanVote\<close> is declared in
  masternode-payments.h, which is not among the sources. The spec (4.4, step 6): "reject
  if the store already contains a vote from this voter for this (height, tier)". The voter
  is the outpoint of the vote's \<open>vinMasternode\<close>.
\<close>

definition CanVote :: "CMasternodePayments \<Rightarrow> COutPoint \<Rightarrow> int \<Rightarrow> nat \<Rightarrow> bool" where
  "CanVote s outMasternode nHeight level \<longleftrightarrow>
     \<not> list_ex (\<lambda>(k, w). prevout (vinMasternode w) = outMasternode
                          \<and> nBlockHeight w = nHeight \<and> payeeLevel w = level)
          (mapMasternodePayeeVotes s)"

text \<open>
  \<open>CMasternodePaymentWinner::IsValid\<close>, with what it does to the peer and the registry.
  The error string only feeds the log.
\<close>

definition IsValid :: "Env \<Rightarrow> CMasternodePaymentWinner \<Rightarrow> bool \<times> effect list" where
  "IsValid env w =
     (case Find_vin env (vinMasternode w) of
        None \<Rightarrow> (False, [AskForMN (vinMasternode w)])
      | Some pmn \<Rightarrow>
          if protocolVersion pmn < ActiveProtocol env then (False, [])
          else
            let n = GetMasternodeRank env (vinMasternode w) (nBlockHeight w - 100) (ActiveProtocol env)
            in if n = - 1 then (False, [])
               else if n > MNPAYMENTS_SIGNATURES_TOTAL
               then (False,
                     if n > MNPAYMENTS_SIGNATURES_TOTAL * 2 \<and> IsSynced env
                     then [Misbehaving 20] else [])
               else (True, []))"

text \<open>The message that is signed, and \<open>CMasternodePaymentWinner::SignatureValid\<close>.\<close>

definition strMessage :: "CMasternodePaymentWinner \<Rightarrow> COutPoint \<times> int \<times> CScript" where
  "strMessage w = (prevout (vinMasternode w), nBlockHeight w, payee w)"

definition SignatureValid :: "Env \<Rightarrow> CMasternodePaymentWinner \<Rightarrow> bool" where
  "SignatureValid env w =
     (case Find_vin env (vinMasternode w) of
        Some pmn \<Rightarrow> VerifyMessage env (pubKeyMasternode pmn) (vchSig w) (strMessage w)
      | None \<Rightarrow> False)"

text \<open>
  The payee of the vote is looked up in the registry, by its script for a vote of the old
  format (which then gets the tier and the collateral of the masternode found) and by its
  collateral otherwise.
\<close>

definition resolve_winner ::
  "Env \<Rightarrow> CMasternodePaymentWinner \<Rightarrow> CMasternode option \<times> CMasternodePaymentWinner" where
  "resolve_winner env winner =
     (if payeeVin winner = CTxIn_null
      then (case Find_payee env (payee winner) of
              Some winner_mn \<Rightarrow>
                (Some winner_mn,
                 winner\<lparr>payeeLevel := mn_Level winner_mn, payeeVin := mn_vin winner_mn\<rparr>)
            | None \<Rightarrow> (None, winner))
      else (Find_vin env (payeeVin winner), winner))"

text \<open>
  \<open>int nFirstBlock = nHeight - (mnodeman.CountEnabled(level) * 1.25)\<close>. The product and the
  difference are computed in \<open>double\<close>, exactly for heights and counts of 32 bits (1.25 is a
  binary fraction), and the conversion to \<open>int\<close> truncates towards zero: the value is the
  quotient of \<open>4 * nHeight - 5 * count\<close> by 4, truncated.
\<close>

definition nFirstBlock :: "Env \<Rightarrow> int \<Rightarrow> nat \<Rightarrow> int" where
  "nFirstBlock env nHeight level = (4 * nHeight - 5 * CountEnabled env level) sdiv 4"

text \<open>
  The handler, on a message that has been decoded into a vote. It returns the store and
  what it did to the outside. The two misbehaviour scores that the source has commented
  out (after an unknown payee and after a second vote of a voter) are not in the model.
\<close>

definition ProcessMessageMasternodePayments ::
  "Env \<Rightarrow> int \<Rightarrow> string \<Rightarrow> CMasternodePaymentWinner \<Rightarrow> CMasternodePayments
   \<Rightarrow> CMasternodePayments \<times> effect list" where
  "ProcessMessageMasternodePayments env pfrom_nVersion strCommand winner0 s =
     (if \<not> IsBlockchainSynced env then (s, [])
      else if fLiteMode env then (s, [])
      else if strCommand \<noteq> ''mnw'' then (s, [])
      else if pfrom_nVersion < ActiveProtocol env then (s, [])
      else if \<not> TRY_LOCK_cs_main env then (s, [])
      else case chainActive_Tip env of
        None \<Rightarrow> (s, [])
      | Some tip \<Rightarrow>
          let nHeight = pindex_nHeight tip;
              winner_mn = fst (resolve_winner env winner0);
              winner = snd (resolve_winner env winner0)
          in if winner_mn = None
             then (s, [if payeeVin winner = CTxIn_null then DsegUpdate
                       else AskForMN (payeeVin winner)])
             else if map_of (mapMasternodePayeeVotes s) (GetHash env winner) \<noteq> None
             then (s, [AddedMasternodeWinner (GetHash env winner)])
             else if nBlockHeight winner < nFirstBlock env nHeight (payeeLevel winner)
                     \<or> nBlockHeight winner > nHeight + 20
             then (s, [])
             else if \<not> fst (IsValid env winner) then (s, snd (IsValid env winner))
             else if \<not> CanVote s (prevout (vinMasternode winner)) (nBlockHeight winner)
                          (payeeLevel winner)
             then (s, [])
             else if \<not> SignatureValid env winner
             then (s, (if IsSynced env \<and> TRY_LOCK_cs_main_Misbehaving env
                       then [Misbehaving 20] else [])
                      @ [AskForMN (vinMasternode winner)])
             else if fst (AddWinningMasternode env s winner)
             then (snd (AddWinningMasternode env s winner),
                   [RelayInv (GetHash env winner), AddedMasternodeWinner (GetHash env winner)])
             else (snd (AddWinningMasternode env s winner), []))"

section \<open>The vote producer: ProcessBlock\<close>

text \<open>\<open>CMasternodePaymentWinner::Sign\<close>: the vote with its signature, when it signs and verifies.\<close>

definition Sign :: "Env \<Rightarrow> nat \<Rightarrow> CMasternodePaymentWinner \<Rightarrow> CMasternodePaymentWinner option" where
  "Sign env pubKey w =
     (case SignMessage env (strMessage w) of
        None \<Rightarrow> None
      | Some sig \<Rightarrow>
          if VerifyMessage env pubKey sig (strMessage w) then Some (w\<lparr>vchSig := sig\<rparr>) else None)"

text \<open>
  The loop over the tiers: the next masternode of the payment queue is nominated in a vote
  of this node, which is signed and admitted with \<open>AddWinningMasternode\<close>.
\<close>

fun ProcessBlock_loop ::
  "Env \<Rightarrow> nat \<Rightarrow> int \<Rightarrow> nat list \<Rightarrow> CMasternodePayments \<times> CMasternodePaymentWinner list
   \<Rightarrow> CMasternodePayments \<times> CMasternodePaymentWinner list" where
  "ProcessBlock_loop env pubKey nHeight [] acc = acc"
| "ProcessBlock_loop env pubKey nHeight (level # levels) (s, winners) =
     (case GetNextMasternodeInQueueForPayment env nHeight level of
        None \<Rightarrow> ProcessBlock_loop env pubKey nHeight levels (s, winners)
      | Some pmn \<Rightarrow>
          (case Sign env pubKey
                  \<lparr>vinMasternode = activeMasternode_vin env, nBlockHeight = nHeight,
                   payee = pubKeyCollateralAddress pmn, payeeLevel = level,
                   payeeVin = mn_vin pmn, vchSig = []\<rparr> of
             None \<Rightarrow> ProcessBlock_loop env pubKey nHeight levels (s, winners)
           | Some newWinner \<Rightarrow>
               if fst (AddWinningMasternode env s newWinner)
               then ProcessBlock_loop env pubKey nHeight levels
                      (snd (AddWinningMasternode env s newWinner), winners @ [newWinner])
               else ProcessBlock_loop env pubKey nHeight levels
                      (snd (AddWinningMasternode env s newWinner), winners)))"

definition ProcessBlock ::
  "Env \<Rightarrow> CMasternodePayments \<Rightarrow> int \<Rightarrow> bool \<times> CMasternodePayments \<times> effect list" where
  "ProcessBlock env s nHeight =
     (if \<not> fMasterNode env then (False, s, [])
      else if nHeight \<le> nLastBlockHeight s then (False, s, [])
      else
        let n = GetMasternodeRank env (activeMasternode_vin env) (nHeight - 100) (ActiveProtocol env)
        in if n = - 1 then (False, s, [])
           else if n > MNPAYMENTS_SIGNATURES_TOTAL then (False, s, [])
           else case SetKey env of
             None \<Rightarrow> (False, s, [])
           | Some pubKey \<Rightarrow>
               let r = (if IsBudgetPaymentBlock env nHeight then (s, [])
                        else ProcessBlock_loop env pubKey nHeight
                               [LevelValue_MIN env ..< Suc (LevelValue_MAX env)] (s, []))
               in if snd r = [] then (False, fst r, [])
                  else (True, (fst r)\<lparr>nLastBlockHeight := nHeight\<rparr>,
                        map (\<lambda>w. RelayInv (GetHash env w)) (snd r)))"

section \<open>Pruning: CleanPaymentList\<close>

text \<open>
  The loop visits the votes the table held at the start; a vote that is too old is erased
  from the sync coordinator's table and from the votes, and the tally at its height is
  erased. \<open>int(mnodeman.size() * 1.25)\<close> is the quotient of \<open>5 * size\<close> by 4, truncated.
\<close>

fun CleanPaymentList_loop ::
  "int \<Rightarrow> int \<Rightarrow> (uint256 \<times> CMasternodePaymentWinner) list \<Rightarrow> CMasternodePayments
   \<Rightarrow> CMasternodePayments" where
  "CleanPaymentList_loop nHeight nLimit [] s = s"
| "CleanPaymentList_loop nHeight nLimit (it # rest) s =
     (if nHeight - nBlockHeight (snd it) > nLimit
      then CleanPaymentList_loop nHeight nLimit rest
             (s\<lparr>mapSeenSyncMNW := AList.delete (fst it) (mapSeenSyncMNW s),
                mapMasternodePayeeVotes := AList.delete (fst it) (mapMasternodePayeeVotes s),
                mapMasternodeBlocks := AList.delete (nBlockHeight (snd it)) (mapMasternodeBlocks s)\<rparr>)
      else CleanPaymentList_loop nHeight nLimit rest s)"

definition CleanPaymentList :: "Env \<Rightarrow> CMasternodePayments \<Rightarrow> CMasternodePayments" where
  "CleanPaymentList env s =
     (if \<not> TRY_LOCK_cs_main env then s
      else case chainActive_Tip env of
        None \<Rightarrow> s
      | Some tip \<Rightarrow>
          CleanPaymentList_loop (pindex_nHeight tip)
            (max ((5 * mnodeman_size env) sdiv 4) 1000)
            (mapMasternodePayeeVotes s) s)"

text \<open>The test of the loop: the vote is more than \<open>nLimit\<close> blocks behind the tip.\<close>

definition aged :: "int \<Rightarrow> int \<Rightarrow> uint256 \<times> CMasternodePaymentWinner \<Rightarrow> bool" where
  "aged nHeight nLimit it \<longleftrightarrow> nHeight - nBlockHeight (snd it) > nLimit"

section \<open>A concrete environment and store for the worked examples\<close>

text \<open>
  The examples run the model on a chain of height 5000 with three tiers and 800
  masternodes. The digest of a vote is a toy one that tells the votes of the examples
  apart, and the reward curve pays tier \<open>l\<close> the share \<open>l/10\<close> of the block value.
\<close>

definition toy_hash :: "CMasternodePaymentWinner \<Rightarrow> uint256" where
  "toy_hash w = nat \<bar>nBlockHeight w\<bar> * 1000000 + fst (prevout (vinMasternode w)) * 1000
                 + sum_list (payee w) * 10 + payeeLevel w"

definition env0 :: Env where
  "env0 = \<lparr>
     chainActive_Tip = Some \<lparr>phashBlock = 7, pindex_nHeight = 5000\<rparr>,
     TRY_LOCK_cs_main = True,
     TRY_LOCK_cs_main_Misbehaving = True,
     mapBlockIndex = (\<lambda>k. None),
     GetBlockHash = (\<lambda>h. 0 \<le> h \<and> h \<le> 5000),
     LevelValue_MIN = 1,
     LevelValue_MAX = 3,
     MasternodeCountDrift = 20,
     GetBudgetCycleBlocks = 43200,
     GetTreasuryRewardScriptAtHeight = (\<lambda>h. [([1], 60), ([2], 40)]),
     IsTreasuryBlock = (\<lambda>h. False),
     GetTreasuryAward = (\<lambda>h. 1000),
     GetMasternodePayment = (\<lambda>h v pos level n zc. v * int level sdiv 10),
     ActiveProtocol = 70000,
     IsZerocoinMint = (\<lambda>script. False),
     SPORK_8_MASTERNODE_PAYMENT_ENFORCEMENT = True,
     SPORK_13_ENABLE_SUPERBLOCKS = False,
     SPORK_17_TREASURY_PAYMENT_ENFORCEMENT = 4070908800,
     SPORK_18_NEW_MASTERNODE_TIERS = True,
     IsBlockchainSynced = True,
     IsSynced = True,
     fLiteMode = False,
     IsBudgetPaymentBlock = (\<lambda>h. False),
     mnodeman_size = 800,
     mnodeman_stable_size = 800,
     CountEnabled = (\<lambda>level. 100),
     Find_payee = (\<lambda>script. None),
     Find_vin = (\<lambda>vin. None),
     GetMasternodeRank = (\<lambda>vin h proto. 1),
     GetCurrentMasterNode = (\<lambda>level. None),
     GetNextMasternodeInQueueForPayment = (\<lambda>h level. None),
     GetHash = toy_hash,
     VerifyMessage = (\<lambda>pk sig msg. True),
     SignMessage = (\<lambda>msg. Some [1]),
     fMasterNode = False,
     activeMasternode_vin = CTxIn_null,
     SetKey = Some 1\<rparr>"

definition voter_vin :: "nat \<Rightarrow> CTxIn" where
  "voter_vin k = \<lparr>prevout = (k, 0), scriptSig = [], nSequence = 4294967295\<rparr>"

definition vote_for :: "nat \<Rightarrow> int \<Rightarrow> CScript \<Rightarrow> nat \<Rightarrow> CMasternodePaymentWinner" where
  "vote_for k h script level =
     \<lparr>vinMasternode = voter_vin k, nBlockHeight = h, payee = script, payeeLevel = level,
      payeeVin = voter_vin (100 + sum_list script), vchSig = [1]\<rparr>"

definition empty_store :: CMasternodePayments where
  "empty_store = \<lparr>mapMasternodePayeeVotes = [], mapMasternodeBlocks = [],
                   nLastBlockHeight = 0, mapSeenSyncMNW = []\<rparr>"

definition payee_record :: "CScript \<Rightarrow> nat \<Rightarrow> int \<Rightarrow> CMasternodePayee" where
  "payee_record script level n =
     \<lparr>payee_scriptPubKey = script, mnlevel = level,
      payee_vin = voter_vin (100 + sum_list script), nVotes = n\<rparr>"

definition store_1000 :: CMasternodePayments where
  "store_1000 = empty_store\<lparr>mapMasternodeBlocks :=
     [(1000, \<lparr>tally_nBlockHeight = 1000, vecPayments = [payee_record [5] 3 6]\<rparr>)]\<rparr>"

definition tx_of :: "CTxOut list \<Rightarrow> CTransaction" where
  "tx_of outs = \<lparr>vout = outs, HasZerocoinSpendInputs = False\<rparr>"

definition txout :: "CAmount \<Rightarrow> CScript \<Rightarrow> CTxOut" where
  "txout n script = \<lparr>nValue = n, scriptPubKey = script\<rparr>"

definition block_on :: "uint256 \<Rightarrow> int \<Rightarrow> CTxOut list \<Rightarrow> CBlock" where
  "block_on prev t outs =
     \<lparr>hashPrevBlock = prev, nTime = t, IsProofOfStake = False, vtx = [tx_of outs]\<rparr>"

definition env_treasury :: Env where
  "env_treasury = env0\<lparr>IsTreasuryBlock := (\<lambda>h. h = 5001),
                        SPORK_17_TREASURY_PAYMENT_ENFORCEMENT := 1500000000\<rparr>"

definition store_5001 :: CMasternodePayments where
  "store_5001 = empty_store\<lparr>mapMasternodeBlocks :=
     [(5001, \<lparr>tally_nBlockHeight = 5001,
               vecPayments = [payee_record [4] 3 6, payee_record [5] 3 7, payee_record [6] 1 2]\<rparr>)]\<rparr>"

text \<open>
  Votes admitted one after the other, and a node with 800 masternodes in its registry,
  600 of them stable, and a reward curve that falls with the masternode count it is
  given, a count below 1 standing for the 600 stable masternodes of the node.
\<close>

definition admit_all ::
  "Env \<Rightarrow> CMasternodePaymentWinner list \<Rightarrow> CMasternodePayments \<Rightarrow> CMasternodePayments" where
  "admit_all env votes s = fold (\<lambda>w s'. snd (AddWinningMasternode env s' w)) votes s"



text \<open>
  A registry that knows the collaterals below 1000, a signer whose valid signature is
  \<open>[1]\<close>, and this node as the masternode with collateral 1, whose payment queue
  nominates the masternode with collateral 106 for tier 3.
\<close>

definition mn_of :: "CTxIn \<Rightarrow> CMasternode" where
  "mn_of vin = \<lparr>mn_vin = vin, mn_Level = 3, protocolVersion = 70000,
               pubKeyCollateralAddress = [fst (prevout vin) - 100],
               pubKeyMasternode = fst (prevout vin)\<rparr>"

definition env_net :: Env where
  "env_net = env0\<lparr>
     Find_vin := (\<lambda>vin. if fst (prevout vin) < 1000 then Some (mn_of vin) else None),
     Find_payee := (\<lambda>script. if sum_list script < 900
                              then Some (mn_of (voter_vin (100 + sum_list script))) else None),
     VerifyMessage := (\<lambda>pk sig msg. sig = [1]),
     fMasterNode := True,
     activeMasternode_vin := voter_vin 1,
     GetNextMasternodeInQueueForPayment :=
       (\<lambda>h level. if level = 3 then Some (mn_of (voter_vin 106)) else None)\<rparr>"

definition at_tip :: "Env \<Rightarrow> int \<Rightarrow> Env" where
  "at_tip env h = env\<lparr>chainActive_Tip := Some \<lparr>phashBlock = 7, pindex_nHeight = h\<rparr>\<rparr>"

definition double_vote_store :: CMasternodePayments where
  "double_vote_store =
     fst (snd (ProcessBlock env_net
       (fst (ProcessMessageMasternodePayments env_net 70000 ''mnw'' (vote_for 1 5001 [5] 3)
               empty_store))
       5001))"

section \<open>Properties of the tally\<close>

lemma find_payee_AddPayee_same:
  "find_payee (AddPayee_vec level script vinIn n vec) script level =
     Some (case find_payee vec script level of
             None \<Rightarrow> \<lparr>payee_scriptPubKey = script, mnlevel = level, payee_vin = vinIn, nVotes = n\<rparr>
           | Some p \<Rightarrow> p\<lparr>nVotes := nVotes p + n\<rparr>)"
  by (induction vec) (simp_all add: find_payee_def)

lemma find_payee_AddPayee_other:
  "(script', level') \<noteq> (script, level) \<Longrightarrow>
   find_payee (AddPayee_vec level script vinIn n vec) script' level' = find_payee vec script' level'"
  by (induction vec) (auto simp: find_payee_def)

section \<open>Sentinels of the empty store\<close>

text \<open>
  Claim C10. On a store whose table of tallies by height is empty, \<open>GetOldestBlock\<close>
  returns the largest \<open>int\<close>, \<open>2147483647\<close>, and \<open>GetNewestBlock\<close> returns \<open>0\<close>: both
  return a plain \<open>int\<close>, not an optional value, whatever the other tables of the store hold.
\<close>

theorem empty_store_sentinels:
  "GetOldestBlock (s\<lparr>mapMasternodeBlocks := []\<rparr>) = 2147483647
   \<and> GetNewestBlock (s\<lparr>mapMasternodeBlocks := []\<rparr>) = 0"
  by (simp add: GetOldestBlock_def GetNewestBlock_def INT_MAX_def)

section \<open>Admission of a vote\<close>

text \<open>
  Claim C3. \<open>AddWinningMasternode(w)\<close> returns true exactly when the block hash at
  \<open>w.nBlockHeight - 100\<close> exists and the hash of \<open>w\<close> is not yet a key of the votes. When
  it returns false the store is unchanged. When it returns true, \<open>w\<close> is stored under its
  hash, the tallies of the other heights are unchanged, and in the tally at
  \<open>w.nBlockHeight\<close> the record of \<open>w\<close>'s script and tier has one vote more than before
  (it is created with one vote when there was none) while every other (script, tier)
  keeps its record.
\<close>

theorem AddWinningMasternode_admission:
  "fst (AddWinningMasternode env s w) =
     (GetBlockHash env (nBlockHeight w - 100)
      \<and> map_of (mapMasternodePayeeVotes s) (GetHash env w) = None)
   \<and> (\<not> fst (AddWinningMasternode env s w) \<longrightarrow> snd (AddWinningMasternode env s w) = s)
   \<and> (fst (AddWinningMasternode env s w) \<longrightarrow>
        (let s' = snd (AddWinningMasternode env s w);
             vec = (case map_of (mapMasternodeBlocks s) (nBlockHeight w) of
                      None \<Rightarrow> [] | Some b \<Rightarrow> vecPayments b)
         in map_of (mapMasternodePayeeVotes s') =
              (map_of (mapMasternodePayeeVotes s))(GetHash env w \<mapsto> w)
            \<and> (\<forall>h. h \<noteq> nBlockHeight w \<longrightarrow>
                  map_of (mapMasternodeBlocks s') h = map_of (mapMasternodeBlocks s) h)
            \<and> (\<exists>b'. map_of (mapMasternodeBlocks s') (nBlockHeight w) = Some b'
                  \<and> find_payee (vecPayments b') (payee w) (payeeLevel w) =
                      Some (case find_payee vec (payee w) (payeeLevel w) of
                              None \<Rightarrow> \<lparr>payee_scriptPubKey = payee w, mnlevel = payeeLevel w,
                                       payee_vin = payeeVin w, nVotes = 1\<rparr>
                            | Some p \<Rightarrow> p\<lparr>nVotes := nVotes p + 1\<rparr>)
                  \<and> (\<forall>script level. (script, level) \<noteq> (payee w, payeeLevel w) \<longrightarrow>
                        find_payee (vecPayments b') script level = find_payee vec script level))))"
proof -
  have other: "\<And>script level vec. (script, level) \<noteq> (payee w, payeeLevel w) \<Longrightarrow>
      find_payee (AddPayee_vec (payeeLevel w) (payee w) (payeeVin w) 1 vec) script level
        = find_payee vec script level"
    by (rule find_payee_AddPayee_other)
  show ?thesis
    by (cases "map_of (mapMasternodeBlocks s) (nBlockHeight w)")
       (auto simp: AddWinningMasternode_def Let_def update_conv' blocks_at_def AddPayee_def
          CMasternodeBlockPayees_new_def find_payee_AddPayee_same other
          simp del: AddPayee_vec.simps)
qed

text \<open>
  A vote for height 4000 is admitted into the empty store and its payee gets a record
  with one vote; a vote for height 6000 is refused, since block 5900 does not exist yet,
  and the store stays empty.
\<close>

theorem AddWinningMasternode_admission_witness:
  "fst (AddWinningMasternode env0 empty_store (vote_for 1 4000 [5] 3))
   \<and> map_of (mapMasternodePayeeVotes (snd (AddWinningMasternode env0 empty_store (vote_for 1 4000 [5] 3))))
        4000001053 = Some (vote_for 1 4000 [5] 3)
   \<and> map_option (\<lambda>b. map nVotes (vecPayments b))
        (map_of (mapMasternodeBlocks (snd (AddWinningMasternode env0 empty_store (vote_for 1 4000 [5] 3))))
           4000) = Some [1]
   \<and> \<not> fst (AddWinningMasternode env0 empty_store (vote_for 1 6000 [5] 3))
   \<and> snd (AddWinningMasternode env0 empty_store (vote_for 1 6000 [5] 3)) = empty_store"
  using AddWinningMasternode_admission [of env0 empty_store "vote_for 1 4000 [5] 3"]
    AddWinningMasternode_admission [of env0 empty_store "vote_for 1 6000 [5] 3"]
  by (simp add: env0_def empty_store_def vote_for_def voter_vin_def toy_hash_def Let_def
        AddWinningMasternode_def blocks_at_def AddPayee_def CMasternodeBlockPayees_new_def)

section \<open>The tally check\<close>

lemma dom_update_alist: "dom (map_of (AList.update k v m)) = insert k (dom (map_of m))"
  by (simp add: update_conv')

lemma dom_delete_alist: "dom (map_of (AList.delete k m)) = dom (map_of m) - {k}"
  by (simp add: delete_conv')

lemma dom_max_signatures_loop:
  "dom (map_of (max_signatures_loop env ps m)) =
     dom (map_of m) \<union> mnlevel ` set (filter (\<lambda>p. \<not> skip_payee env p) ps)"
proof (induction ps arbitrary: m)
  case Nil
  show ?case by simp
next
  case (Cons p ps)
  show ?case
  proof (cases "skip_payee env p")
    case True
    then show ?thesis using Cons.IH [of m] by simp
  next
    case False
    show ?thesis
    proof (cases "map_of m (mnlevel p)")
      case None
      then show ?thesis
        using False Cons.IH [of "AList.update (mnlevel p) (nVotes p) m"]
        by (simp add: dom_update_alist)
    next
      case (Some n)
      then have "mnlevel p \<in> dom (map_of m)" by auto
      then show ?thesis
        using False Some Cons.IH [of "AList.update (mnlevel p) (nVotes p) m"] Cons.IH [of m]
        by (simp add: dom_update_alist insert_absorb)
    qed
  qed
qed

lemma alist_empty_iff: "m = [] \<longleftrightarrow> dom (map_of m) = {}"
  by (simp add: dom_map_of_conv_image_fst)

lemma payee_out_iff:
  "payee_out p (GetMasternodePayment env nHeight v pos (mnlevel p) drift (HasZerocoinSpendInputs tx)) (vout tx) \<noteq> None
     \<longleftrightarrow> paid env nHeight tx v pos drift p"
  unfolding payee_out_def paid_def find_None_iff list_ex_iff by fastforce

lemma IsTransactionValid_loop_iff:
  "m \<noteq> [] \<Longrightarrow>
   IsTransactionValid_loop env nHeight tx v pos drift ps m \<longleftrightarrow>
     (\<forall>level \<in> dom (map_of m). \<exists>p \<in> set ps. \<not> skip_payee env p \<and> mnlevel p = level
          \<and> paid env nHeight tx v pos drift p)"
proof (induction ps arbitrary: m)
  case Nil
  then have "dom (map_of m) \<noteq> {}" using alist_empty_iff [of m] by blast
  then show ?case by auto
next
  case (Cons p ps)
  show ?case
  proof (cases "skip_payee env p")
    case True
    then show ?thesis using Cons.IH [OF Cons.prems] by simp
  next
    case False
    show ?thesis
    proof (cases "paid env nHeight tx v pos drift p")
      case unpaid: False
      have po: "payee_out p (GetMasternodePayment env nHeight v pos (mnlevel p) drift
                  (HasZerocoinSpendInputs tx)) (vout tx) = None"
        using unpaid payee_out_iff [of p env nHeight v pos drift tx] by blast
      have "IsTransactionValid_loop env nHeight tx v pos drift (p # ps) m
                = IsTransactionValid_loop env nHeight tx v pos drift ps m"
        using False by (simp add: po Let_def)
      also have "\<dots> = (\<forall>level \<in> dom (map_of m). \<exists>q \<in> set ps. \<not> skip_payee env q
                          \<and> mnlevel q = level \<and> paid env nHeight tx v pos drift q)"
        using Cons.IH [OF Cons.prems] .
      also have "\<dots> = (\<forall>level \<in> dom (map_of m). \<exists>q \<in> set (p # ps). \<not> skip_payee env q
                          \<and> mnlevel q = level \<and> paid env nHeight tx v pos drift q)"
        using unpaid by auto
      finally show ?thesis .
    next
      case True
      obtain out where po: "payee_out p (GetMasternodePayment env nHeight v pos (mnlevel p) drift
                  (HasZerocoinSpendInputs tx)) (vout tx) = Some out"
        using True payee_out_iff [of p env nHeight v pos drift tx] by blast
      let ?m' = "if map_of m (mnlevel p) \<noteq> None then AList.delete (mnlevel p) m else m"
      have dom': "dom (map_of ?m') = dom (map_of m) - {mnlevel p}"
        by (auto simp: delete_conv' split: if_splits)
      show ?thesis
      proof (cases "?m' = []")
        case empty: True
        then have "dom (map_of ?m') = {}" using alist_empty_iff [of ?m'] by blast
        then have sub: "dom (map_of m) \<subseteq> {mnlevel p}"
          unfolding dom' by blast
        have "IsTransactionValid_loop env nHeight tx v pos drift (p # ps) m"
          using False empty by (simp add: po Let_def)
        moreover have "\<forall>level \<in> dom (map_of m). \<exists>q \<in> set (p # ps). \<not> skip_payee env q
                          \<and> mnlevel q = level \<and> paid env nHeight tx v pos drift q"
          using sub True False by auto
        ultimately show ?thesis by blast
      next
        case nonempty: False
        have "IsTransactionValid_loop env nHeight tx v pos drift (p # ps) m
                = IsTransactionValid_loop env nHeight tx v pos drift ps ?m'"
          using False nonempty by (simp add: po Let_def)
        also have "\<dots> = (\<forall>level \<in> dom (map_of ?m'). \<exists>q \<in> set ps. \<not> skip_payee env q
                          \<and> mnlevel q = level \<and> paid env nHeight tx v pos drift q)"
          using Cons.IH [OF nonempty] .
        also have "\<dots> = (\<forall>level \<in> dom (map_of m). \<exists>q \<in> set (p # ps). \<not> skip_payee env q
                          \<and> mnlevel q = level \<and> paid env nHeight tx v pos drift q)"
          unfolding dom' using True False by auto
        finally show ?thesis .
      qed
    qed
  qed
qed

lemma CMasternodeBlockPayees_IsTransactionValid_iff:
  "CMasternodeBlockPayees_IsTransactionValid env b tx v pos \<longleftrightarrow>
     (let qualified = filter (\<lambda>p. \<not> skip_payee env p) (vecPayments b)
      in qualified = [] \<or>
         (\<forall>level \<in> mnlevel ` set qualified. \<exists>p \<in> set qualified. mnlevel p = level
            \<and> paid env (tally_nBlockHeight b) tx v pos (nMasternode_Drift_Count env) p))"
proof -
  let ?q = "filter (\<lambda>p. \<not> skip_payee env p) (vecPayments b)"
  let ?m = "max_signatures_loop env (vecPayments b) []"
  have dom: "dom (map_of ?m) = mnlevel ` set ?q"
    by (simp add: dom_max_signatures_loop)
  have "?m = [] \<longleftrightarrow> mnlevel ` set ?q = {}"
    using alist_empty_iff [of ?m] dom by metis
  then have empty: "?m = [] \<longleftrightarrow> ?q = []"
    by (simp only: image_is_empty set_empty)
  show ?thesis
  proof (cases "?m = []")
    case True
    then show ?thesis using empty
      by (simp add: CMasternodeBlockPayees_IsTransactionValid_def Let_def)
  next
    case False
    have "CMasternodeBlockPayees_IsTransactionValid env b tx v pos
            = IsTransactionValid_loop env (tally_nBlockHeight b) tx v pos
                (nMasternode_Drift_Count env) (vecPayments b) ?m"
      using False by (simp add: CMasternodeBlockPayees_IsTransactionValid_def Let_def)
    also have "\<dots> = (\<forall>level \<in> mnlevel ` set ?q. \<exists>p \<in> set (vecPayments b).
                  \<not> skip_payee env p \<and> mnlevel p = level
                  \<and> paid env (tally_nBlockHeight b) tx v pos (nMasternode_Drift_Count env) p)"
      using IsTransactionValid_loop_iff [OF False] dom by simp
    also have "\<dots> = (\<forall>level \<in> mnlevel ` set ?q. \<exists>p \<in> set ?q. mnlevel p = level
                  \<and> paid env (tally_nBlockHeight b) tx v pos (nMasternode_Drift_Count env) p)"
      by auto
    finally show ?thesis using False empty by (simp add: Let_def)
  qed
qed

text \<open>
  Claim C1. For a height with a stored tally, \<open>IsTransactionValid\<close> returns true if and
  only if no payee record of the tally is qualified (at least 6 votes, and of the top
  tier when the new tiers are off), or every tier that has a qualified record has a
  qualified record that some output of the transaction pays: the output has the
  record's script and at least the amount of the reward curve for that tier, computed
  with the drift count. The outputs enter as a set, so their order does not matter. For
  a height with no stored tally, \<open>IsTransactionValid\<close> returns true.
\<close>

theorem IsTransactionValid_iff:
  "(map_of (mapMasternodeBlocks s) h = Some b \<longrightarrow>
      CMasternodePayments_IsTransactionValid env s tx h v pos =
        (let qualified =
               filter (\<lambda>p. 6 \<le> nVotes p
                            \<and> (SPORK_18_NEW_MASTERNODE_TIERS env \<or> mnlevel p = LevelValue_MAX env))
                 (vecPayments b)
         in qualified = [] \<or>
            (\<forall>level \<in> mnlevel ` set qualified. \<exists>p \<in> set qualified. mnlevel p = level
               \<and> (\<exists>out \<in> set (vout tx). scriptPubKey out = payee_scriptPubKey p
                     \<and> nValue out \<ge> GetMasternodePayment env (tally_nBlockHeight b) v pos level
                                       (nMasternode_Drift_Count env) (HasZerocoinSpendInputs tx)))))
   \<and> (map_of (mapMasternodeBlocks s) h = None \<longrightarrow>
        CMasternodePayments_IsTransactionValid env s tx h v pos)"
proof -
  have q: "(\<lambda>p. \<not> skip_payee env p) =
           (\<lambda>p. 6 \<le> nVotes p \<and> (SPORK_18_NEW_MASTERNODE_TIERS env \<or> mnlevel p = LevelValue_MAX env))"
    by (auto simp: skip_payee_def MNPAYMENTS_SIGNATURES_REQUIRED_def fun_eq_iff)
  let ?q = "filter (\<lambda>p. 6 \<le> nVotes p
                \<and> (SPORK_18_NEW_MASTERNODE_TIERS env \<or> mnlevel p = LevelValue_MAX env)) (vecPayments b)"
  have inner: "(\<forall>level \<in> mnlevel ` set ?q. \<exists>p \<in> set ?q. mnlevel p = level
                  \<and> paid env (tally_nBlockHeight b) tx v pos (nMasternode_Drift_Count env) p)
             = (\<forall>level \<in> mnlevel ` set ?q. \<exists>p \<in> set ?q. mnlevel p = level
               \<and> (\<exists>out \<in> set (vout tx). scriptPubKey out = payee_scriptPubKey p
                     \<and> nValue out \<ge> GetMasternodePayment env (tally_nBlockHeight b) v pos level
                                       (nMasternode_Drift_Count env) (HasZerocoinSpendInputs tx)))"
    apply (rule ball_cong [OF refl])
    apply (rule bex_cong [OF refl])
    apply (simp only: paid_def list_ex_iff)
    by blast
  have blk: "CMasternodeBlockPayees_IsTransactionValid env b tx v pos =
        (?q = [] \<or>
            (\<forall>level \<in> mnlevel ` set ?q. \<exists>p \<in> set ?q. mnlevel p = level
               \<and> (\<exists>out \<in> set (vout tx). scriptPubKey out = payee_scriptPubKey p
                     \<and> nValue out \<ge> GetMasternodePayment env (tally_nBlockHeight b) v pos level
                                       (nMasternode_Drift_Count env) (HasZerocoinSpendInputs tx))))"
    unfolding CMasternodeBlockPayees_IsTransactionValid_iff q Let_def inner ..
  show ?thesis
    unfolding CMasternodePayments_IsTransactionValid_def Let_def
    using blk by simp
qed

text \<open>
  Six votes for one script at height 1000, top tier only: a transaction with an output of
  15 to the script is valid, one without is not, and at height 999, which has no tally,
  the same transaction is valid.
\<close>

theorem IsTransactionValid_iff_witness:
  "map_of (mapMasternodeBlocks store_1000) 1000
     = Some \<lparr>tally_nBlockHeight = 1000, vecPayments = [payee_record [5] 3 6]\<rparr>
   \<and> CMasternodePayments_IsTransactionValid (env0\<lparr>SPORK_18_NEW_MASTERNODE_TIERS := False\<rparr>)
        store_1000 (tx_of [txout 35 [9], txout 15 [5]]) 1000 50 False
   \<and> \<not> CMasternodePayments_IsTransactionValid (env0\<lparr>SPORK_18_NEW_MASTERNODE_TIERS := False\<rparr>)
        store_1000 (tx_of [txout 50 [9]]) 1000 50 False
   \<and> map_of (mapMasternodeBlocks store_1000) 999 = None
   \<and> CMasternodePayments_IsTransactionValid (env0\<lparr>SPORK_18_NEW_MASTERNODE_TIERS := False\<rparr>)
        store_1000 (tx_of [txout 50 [9]]) 999 50 False"
  using IsTransactionValid_iff [of store_1000 1000
          "\<lparr>tally_nBlockHeight = 1000, vecPayments = [payee_record [5] 3 6]\<rparr>"
          "env0\<lparr>SPORK_18_NEW_MASTERNODE_TIERS := False\<rparr>" "tx_of [txout 35 [9], txout 15 [5]]" 50 False]
    IsTransactionValid_iff [of store_1000 1000
          "\<lparr>tally_nBlockHeight = 1000, vecPayments = [payee_record [5] 3 6]\<rparr>"
          "env0\<lparr>SPORK_18_NEW_MASTERNODE_TIERS := False\<rparr>" "tx_of [txout 50 [9]]" 50 False]
    IsTransactionValid_iff [of store_1000 999
          "\<lparr>tally_nBlockHeight = 1000, vecPayments = [payee_record [5] 3 6]\<rparr>"
          "env0\<lparr>SPORK_18_NEW_MASTERNODE_TIERS := False\<rparr>" "tx_of [txout 50 [9]]" 50 False]
  by (simp add: store_1000_def empty_store_def env0_def payee_record_def tx_of_def txout_def
        nMasternode_Drift_Count_def signed_divide_int_def)

section \<open>The treasury check of IsBlockValueValid\<close>

lemma treasury_found_loop_count:
  "treasury_found_loop tp outs ps found = found + int (length (filter (treasury_paid tp outs) ps))"
  by (induction ps arbitrary: found) (simp_all add: treasury_paid_def)

lemma length_filter_eq_iff: "length (filter P xs) = length xs \<longleftrightarrow> list_all P xs"
proof (induction xs)
  case Nil
  show ?case by simp
next
  case (Cons x xs)
  have "length (filter P xs) \<noteq> Suc (length xs)"
    using length_filter_le [of P xs] by arith
  then show ?case using Cons by auto
qed

lemma treasury_found_all:
  "treasury_found_loop tp outs ps 0 = int (length ps) \<longleftrightarrow> list_all (treasury_paid tp outs) ps"
  by (simp add: treasury_found_loop_count length_filter_eq_iff)

text \<open>
  Claim C6. For a block at a treasury height, \<open>IsBlockValueValid\<close> rejects at the treasury
  check exactly when some configured treasury payee \<open>(script, percent)\<close> has no output in
  the coinbase (or the coinstake) with that script and the value
  \<open>GetTreasuryAward(height) * percent / 100\<close>, and the time of the block is past the value
  of the treasury enforcement spork. In every other case the treasury check lets the block
  through and the result is that of the remaining value rules.
\<close>

theorem IsBlockValueValid_treasury:
  assumes "chainActive_Tip env = Some pindexPrev"
    and "resolve_nHeight env pindexPrev block = nHeight"
    and "IsTreasuryBlock env nHeight"
    and "coinbase_or_coinstake block = Some txNew"
  shows "IsBlockValueValid env block nExpectedValue nMinted =
     (if (\<exists>(script, percent) \<in> set (GetTreasuryRewardScriptAtHeight env nHeight).
            \<not> (\<exists>out \<in> set (vout txNew). scriptPubKey out = script
                   \<and> nValue out = (GetTreasuryAward env nHeight * percent) sdiv 100))
         \<and> nTime block > SPORK_17_TREASURY_PAYMENT_ENFORCEMENT env
      then Some False
      else Some (budget_value_rules env nHeight nExpectedValue nMinted))"
proof -
  let ?ps = "GetTreasuryRewardScriptAtHeight env nHeight"
  let ?tp = "GetTreasuryAward env nHeight"
  have "(treasury_found_loop ?tp (vout txNew) ?ps 0 \<noteq> int (length ?ps)) =
        (\<exists>(script, percent) \<in> set ?ps.
            \<not> (\<exists>out \<in> set (vout txNew). scriptPubKey out = script
                   \<and> nValue out = (?tp * percent) sdiv 100))"
    unfolding treasury_found_all
    by (simp add: list_all_iff treasury_paid_def list_ex_iff case_prod_beta)
  then show ?thesis
    using assms by (simp add: IsBlockValueValid_def IsBlockValueValid_at_def Let_def)
qed

text \<open>
  Treasury payees 60% and 40% of an award of 1000 at height 5001, enforcement from time
  1500000000: the exact outputs are accepted; a short output is rejected at time
  1600000000 and let through at time 1400000000, where the value rule still rejects a
  block that mints more than expected.
\<close>

theorem IsBlockValueValid_treasury_witness:
  "chainActive_Tip env_treasury = Some \<lparr>phashBlock = 7, pindex_nHeight = 5000\<rparr>
   \<and> resolve_nHeight env_treasury \<lparr>phashBlock = 7, pindex_nHeight = 5000\<rparr>
        (block_on 7 1600000000 [txout 600 [1], txout 400 [2]]) = 5001
   \<and> IsTreasuryBlock env_treasury 5001
   \<and> IsBlockValueValid env_treasury (block_on 7 1600000000 [txout 600 [1], txout 400 [2]]) 1000 1000
       = Some True
   \<and> IsBlockValueValid env_treasury (block_on 7 1600000000 [txout 600 [1], txout 399 [2]]) 1000 1000
       = Some False
   \<and> IsBlockValueValid env_treasury (block_on 7 1400000000 [txout 600 [1], txout 399 [2]]) 1000 1000
       = Some True
   \<and> IsBlockValueValid env_treasury (block_on 7 1400000000 [txout 600 [1], txout 399 [2]]) 1000 1001
       = Some False"
  using IsBlockValueValid_treasury [of env_treasury "\<lparr>phashBlock = 7, pindex_nHeight = 5000\<rparr>"
          "block_on 7 1600000000 [txout 600 [1], txout 400 [2]]" 5001
          "tx_of [txout 600 [1], txout 400 [2]]" 1000 1000]
    IsBlockValueValid_treasury [of env_treasury "\<lparr>phashBlock = 7, pindex_nHeight = 5000\<rparr>"
          "block_on 7 1600000000 [txout 600 [1], txout 399 [2]]" 5001
          "tx_of [txout 600 [1], txout 399 [2]]" 1000 1000]
    IsBlockValueValid_treasury [of env_treasury "\<lparr>phashBlock = 7, pindex_nHeight = 5000\<rparr>"
          "block_on 7 1400000000 [txout 600 [1], txout 399 [2]]" 5001
          "tx_of [txout 600 [1], txout 399 [2]]" 1000 1000]
    IsBlockValueValid_treasury [of env_treasury "\<lparr>phashBlock = 7, pindex_nHeight = 5000\<rparr>"
          "block_on 7 1400000000 [txout 600 [1], txout 399 [2]]" 5001
          "tx_of [txout 600 [1], txout 399 [2]]" 1000 1001]
  by (simp add: env_treasury_def env0_def block_on_def resolve_nHeight_def coinbase_or_coinstake_def
        tx_of_def txout_def budget_value_rules_def signed_divide_int_def)

section \<open>A block whose parent is not found\<close>

text \<open>
  Claim C8 says that \<open>IsBlockValueValid\<close> accepts a block whose parent cannot be resolved,
  whatever was minted. The source only logs the warning and goes on with height \<open>0\<close>: on a
  synced node with superblocks off, a block with an unknown parent that mints 2 where 1
  is expected is rejected.
\<close>

theorem unresolved_parent_counterexample:
  "chainActive_Tip env0 = Some \<lparr>phashBlock = 7, pindex_nHeight = 5000\<rparr>
   \<and> hashPrevBlock (block_on 8 1600000000 [txout 2 [9]]) \<noteq> 7
   \<and> mapBlockIndex env0 (hashPrevBlock (block_on 8 1600000000 [txout 2 [9]])) = None
   \<and> IsBlockValueValid env0 (block_on 8 1600000000 [txout 2 [9]]) 1 2 = Some False"
  by (simp add: env0_def block_on_def IsBlockValueValid_def IsBlockValueValid_at_def
        resolve_nHeight_def budget_value_rules_def)

text \<open>
  Claim C8, amended. Without a chain tip \<open>IsBlockValueValid\<close> accepts. When the tip is not
  the parent and the parent is not in the block index, the function logs a warning and
  runs its checks at height \<open>0\<close>: if \<open>0\<close> is not a treasury height, it accepts exactly when
  the node is not synced, or the minted amount is at most the expected one, or superblocks
  are on and \<open>0\<close> is a budget payment height.
\<close>

theorem IsBlockValueValid_unresolved_parent:
  "(chainActive_Tip env = None \<longrightarrow> IsBlockValueValid env block nExpectedValue nMinted = Some True)
   \<and> (chainActive_Tip env = Some pindexPrev
        \<and> phashBlock pindexPrev \<noteq> hashPrevBlock block
        \<and> mapBlockIndex env (hashPrevBlock block) = None \<longrightarrow>
        IsBlockValueValid env block nExpectedValue nMinted
          = IsBlockValueValid_at env block 0 nExpectedValue nMinted
        \<and> (\<not> IsTreasuryBlock env 0 \<longrightarrow>
             IsBlockValueValid env block nExpectedValue nMinted =
               Some (\<not> IsSynced env
                     \<or> nMinted \<le> nExpectedValue
                     \<or> (SPORK_13_ENABLE_SUPERBLOCKS env \<and> IsBudgetPaymentBlock env 0))))"
  by (auto simp: IsBlockValueValid_def IsBlockValueValid_at_def resolve_nHeight_def
        budget_value_rules_def signed_modulo_int_def)

theorem IsBlockValueValid_unresolved_parent_witness:
  "chainActive_Tip env0 = Some \<lparr>phashBlock = 7, pindex_nHeight = 5000\<rparr>
   \<and> phashBlock \<lparr>phashBlock = 7, pindex_nHeight = 5000\<rparr> \<noteq> hashPrevBlock (block_on 8 1600000000 [txout 2 [9]])
   \<and> mapBlockIndex env0 (hashPrevBlock (block_on 8 1600000000 [txout 2 [9]])) = None
   \<and> \<not> IsTreasuryBlock env0 0
   \<and> IsBlockValueValid env0 (block_on 8 1600000000 [txout 2 [9]]) 1 2 = Some False
   \<and> IsBlockValueValid env0 (block_on 8 1600000000 [txout 2 [9]]) 2 2 = Some True
   \<and> IsBlockValueValid (env0\<lparr>IsSynced := False\<rparr>) (block_on 8 1600000000 [txout 2 [9]]) 1 2 = Some True
   \<and> IsBlockValueValid (env0\<lparr>chainActive_Tip := None\<rparr>) (block_on 8 1600000000 [txout 2 [9]]) 1 2 = Some True"
  using IsBlockValueValid_unresolved_parent [of env0 "block_on 8 1600000000 [txout 2 [9]]" 1 2
          "\<lparr>phashBlock = 7, pindex_nHeight = 5000\<rparr>"]
    IsBlockValueValid_unresolved_parent [of env0 "block_on 8 1600000000 [txout 2 [9]]" 2 2
          "\<lparr>phashBlock = 7, pindex_nHeight = 5000\<rparr>"]
    IsBlockValueValid_unresolved_parent [of "env0\<lparr>IsSynced := False\<rparr>" "block_on 8 1600000000 [txout 2 [9]]" 1 2
          "\<lparr>phashBlock = 7, pindex_nHeight = 5000\<rparr>"]
    IsBlockValueValid_unresolved_parent [of "env0\<lparr>chainActive_Tip := None\<rparr>" "block_on 8 1600000000 [txout 2 [9]]" 1 2
          "\<lparr>phashBlock = 7, pindex_nHeight = 5000\<rparr>"]
  by (simp add: env0_def block_on_def IsBlockValueValid_def IsBlockValueValid_at_def
        resolve_nHeight_def budget_value_rules_def)

section \<open>Conservation of value by FillBlockPayee\<close>

lemma length_subtract_at [simp]: "length (subtract_at j a outs) = length outs"
  by (simp add: subtract_at_def)

lemma total_out_update:
  "j < length outs \<Longrightarrow> total_out (outs[j := x]) = total_out outs - nValue (outs ! j) + nValue x"
proof (induction outs arbitrary: j)
  case Nil
  then show ?case by simp
next
  case (Cons y ys)
  then show ?case by (cases j) (simp_all add: total_out_def)
qed

lemma total_out_subtract_at:
  "j < length outs \<Longrightarrow> total_out (subtract_at j a outs) = total_out outs - a"
  by (simp add: subtract_at_def total_out_update)

lemma total_out_append [simp]: "total_out (xs @ ys) = total_out xs + total_out ys"
  by (simp add: total_out_def)

lemma drop_subtract_at: "j < n \<Longrightarrow> drop n (subtract_at j a outs) = drop n outs"
  by (simp add: subtract_at_def)

lemma script_subtract_at:
  "k < length outs \<Longrightarrow> scriptPubKey (subtract_at j a outs ! k) = scriptPubKey (outs ! k)"
  by (cases "j = k") (simp_all add: subtract_at_def)

lemma fold_subtract_at:
  "n < length outs \<Longrightarrow>
   length (fold (\<lambda>j. subtract_at j a) [1..<Suc n] outs) = length outs
   \<and> total_out (fold (\<lambda>j. subtract_at j a) [1..<Suc n] outs) = total_out outs - int n * a
   \<and> (\<forall>m > n. drop m (fold (\<lambda>j. subtract_at j a) [1..<Suc n] outs) = drop m outs)
   \<and> (\<forall>k < length outs. scriptPubKey (fold (\<lambda>j. subtract_at j a) [1..<Suc n] outs ! k)
                            = scriptPubKey (outs ! k))"
proof (induction n)
  case 0
  show ?case by simp
next
  case (Suc n)
  let ?f = "fold (\<lambda>j. subtract_at j a) [1..<Suc n] outs"
  have split: "fold (\<lambda>j. subtract_at j a) [1..<Suc (Suc n)] outs = subtract_at (Suc n) a ?f"
    by simp
  have IH: "length ?f = length outs" "total_out ?f = total_out outs - int n * a"
    "\<forall>m > n. drop m ?f = drop m outs"
    "\<forall>k < length outs. scriptPubKey (?f ! k) = scriptPubKey (outs ! k)"
    using Suc by simp_all
  have "total_out (subtract_at (Suc n) a ?f) = total_out outs - int (Suc n) * a"
    using Suc.prems IH by (simp add: total_out_subtract_at algebra_simps)
  moreover have "\<forall>m > Suc n. drop m (subtract_at (Suc n) a ?f) = drop m outs"
    using IH by (simp add: drop_subtract_at)
  moreover have "\<forall>k < length outs. scriptPubKey (subtract_at (Suc n) a ?f ! k) = scriptPubKey (outs ! k)"
    using IH by (simp add: script_subtract_at)
  ultimately show ?case unfolding split using IH by simp
qed

lemma nth_subtract_at:
  "k < length outs \<Longrightarrow>
   subtract_at j a outs ! k
     = (if j = k then (outs ! k)\<lparr>nValue := nValue (outs ! k) - a\<rparr> else outs ! k)"
  by (simp add: subtract_at_def)

lemma fold_subtract_at_nth:
  "n < length outs \<Longrightarrow> k < length outs \<Longrightarrow>
   fold (\<lambda>j. subtract_at j a) [1..<Suc n] outs ! k
     = (if 1 \<le> k \<and> k \<le> n then (outs ! k)\<lparr>nValue := nValue (outs ! k) - a\<rparr> else outs ! k)"
proof (induction n)
  case 0
  show ?case by simp
next
  case (Suc n)
  let ?f = "fold (\<lambda>j. subtract_at j a) [1..<Suc n] outs"
  have split: "fold (\<lambda>j. subtract_at j a) [1..<Suc (Suc n)] outs = subtract_at (Suc n) a ?f"
    by simp
  have len: "length ?f = length outs"
    using fold_subtract_at [of n outs a] Suc.prems by simp
  have IH: "?f ! k
        = (if 1 \<le> k \<and> k \<le> n then (outs ! k)\<lparr>nValue := nValue (outs ! k) - a\<rparr> else outs ! k)"
    using Suc by simp
  have "k < length ?f" using Suc.prems len by simp
  then have "subtract_at (Suc n) a ?f ! k
      = (if Suc n = k then (?f ! k)\<lparr>nValue := nValue (?f ! k) - a\<rparr> else ?f ! k)"
    by (rule nth_subtract_at)
  also have "\<dots> = (if 1 \<le> k \<and> k \<le> Suc n then (outs ! k)\<lparr>nValue := nValue (outs ! k) - a\<rparr>
             else outs ! k)"
    using IH by auto
  finally show ?case unfolding split .
qed

text \<open>The loop of the proof-of-stake branch against the shares of the spec.\<close>

lemma length_spec_charge_stake [simp]:
  "length (spec_charge_stake k pay outs) = length outs"
  by (simp add: spec_charge_stake_def)

lemma nth_spec_charge_stake:
  "j < length outs \<Longrightarrow>
   spec_charge_stake k pay outs ! j
     = (outs ! j)\<lparr>nValue := nValue (outs ! j) - spec_stake_share k pay j\<rparr>"
  by (simp add: spec_charge_stake_def nth_enumerate_eq)

lemma spec_charge_stake_append:
  "k < length outs \<Longrightarrow>
   spec_charge_stake k pay (outs @ rest) = spec_charge_stake k pay outs @ rest"
  by (rule nth_equalityI)
     (auto simp: nth_spec_charge_stake nth_append spec_stake_share_def)

lemma stake_loop_charges:
  assumes "1 \<le> k" "k < length outs"
  shows "(if k = 1 then subtract_at 1 pay outs
          else subtract_at k (pay - (pay sdiv int k) * int k)
                 (fold (\<lambda>j. subtract_at j (pay sdiv int k)) [1..<Suc k] outs))
         = spec_charge_stake k pay outs"
proof (cases "k = 1")
  case True
  have "subtract_at 1 pay outs ! j = spec_charge_stake 1 pay outs ! j" if "j < length outs" for j
    using that by (simp add: nth_subtract_at nth_spec_charge_stake spec_stake_share_def)
  then have "subtract_at 1 pay outs = spec_charge_stake 1 pay outs"
    by (intro nth_equalityI) simp_all
  then show ?thesis using True by simp
next
  case False
  let ?split = "pay sdiv int k"
  let ?rem = "pay - ?split * int k"
  let ?f = "fold (\<lambda>j. subtract_at j ?split) [1..<Suc k] outs"
  have len: "length ?f = length outs"
    using fold_subtract_at [OF assms(2), of ?split] by blast
  have "subtract_at k ?rem ?f ! j = spec_charge_stake k pay outs ! j" if j: "j < length outs" for j
  proof -
    have "j < length ?f" using j len by simp
    then have "subtract_at k ?rem ?f ! j
        = (if k = j then (?f ! j)\<lparr>nValue := nValue (?f ! j) - ?rem\<rparr> else ?f ! j)"
      by (rule nth_subtract_at)
    also have "\<dots> = spec_charge_stake k pay outs ! j"
      using fold_subtract_at_nth [OF assms(2) j, of ?split] j assms(1)
      by (auto simp: nth_spec_charge_stake spec_stake_share_def)
    finally show ?thesis .
  qed
  then have "subtract_at k ?rem ?f = spec_charge_stake k pay outs"
    using len by (intro nth_equalityI) simp_all
  then show ?thesis using False by simp
qed

lemma fill_pos_step_exact:
  assumes n0: "2 \<le> n0" "n0 \<le> length (fs_vout st)"
    and first: "fs_level st = 1 \<longrightarrow> length (fs_vout st) = n0"
    and later: "fs_level st \<noteq> 1 \<longrightarrow> fs_outputs st = n0 - 1"
    and mint: "\<not> IsZerocoinMint env (scriptPubKey (fs_vout st ! 1))"
  shows "fill_pos_step env script pay st
         = Some (st\<lparr>fs_outputs := n0 - 1,
                    fs_vout := spec_charge_stake (n0 - 1) pay
                                 (fs_vout st @ [\<lparr>nValue = pay, scriptPubKey = script\<rparr>])\<rparr>)"
proof -
  let ?po = "\<lparr>nValue = pay, scriptPubKey = script\<rparr>"
  let ?outs = "fs_vout st @ [?po]"
  let ?n = "n0 - 1"
  have outputs: "(if fs_level st = 1 then length (fs_vout st) - 1 else fs_outputs st) = ?n"
    using first later by auto
  have len: "?n < length ?outs" "1 \<le> ?n" "length (fs_vout st) \<noteq> 0"
    using n0 by auto
  have at1: "?outs ! 1 = fs_vout st ! 1"
    using n0 by (simp add: nth_append)
  have charge: "(if ?n = 1 then subtract_at 1 pay ?outs
          else subtract_at ?n (pay - (pay sdiv int ?n) * int ?n)
                 (fold (\<lambda>j. subtract_at j (pay sdiv int ?n)) [1..<Suc ?n] ?outs))
         = spec_charge_stake ?n pay ?outs"
    using len by (intro stake_loop_charges) simp_all
  have gt: "?n \<noteq> 1 \<Longrightarrow> ?n > 1" using len by simp
  show ?thesis
  proof (cases "?n = 1")
    case True
    then show ?thesis
      using len mint charge unfolding fill_pos_step_def Let_def outputs at1 by simp
  next
    case False
    then show ?thesis
      using len mint charge gt unfolding fill_pos_step_def Let_def outputs at1 by simp
  qed
qed

lemma fill_pos_step_ok:
  assumes n0: "2 \<le> n0" "n0 \<le> length (fs_vout st)"
    and first: "fs_level st = 1 \<longrightarrow> length (fs_vout st) = n0"
    and later: "fs_level st \<noteq> 1 \<longrightarrow> fs_outputs st = n0 - 1"
    and mint: "\<not> IsZerocoinMint env (scriptPubKey (fs_vout st ! 1))"
  shows "\<exists>st'. fill_pos_step env script pay st = Some st'
      \<and> fs_level st' = fs_level st \<and> fs_outputs st' = n0 - 1
      \<and> length (fs_vout st') = Suc (length (fs_vout st))
      \<and> total_out (fs_vout st') = total_out (fs_vout st)
      \<and> drop n0 (fs_vout st') = drop n0 (fs_vout st) @ [\<lparr>nValue = pay, scriptPubKey = script\<rparr>]
      \<and> scriptPubKey (fs_vout st' ! 1) = scriptPubKey (fs_vout st ! 1)"
proof -
  let ?po = "\<lparr>nValue = pay, scriptPubKey = script\<rparr>"
  let ?outs = "fs_vout st @ [?po]"
  let ?n = "n0 - 1"
  have outputs: "(if fs_level st = 1 then length (fs_vout st) - 1 else fs_outputs st) = ?n"
    using first later by auto
  have len: "?n < length ?outs" "?n < length (fs_vout st)" "1 \<le> ?n" "length (fs_vout st) \<noteq> 0"
    using n0 by auto
  have at1: "?outs ! 1 = fs_vout st ! 1"
    using n0 by (simp add: nth_append)
  have total: "total_out ?outs = total_out (fs_vout st) + pay"
    by (simp add: total_out_def)
  have dropo: "drop n0 ?outs = drop n0 (fs_vout st) @ [?po]"
    using n0 by simp
  have l1: "1 < length ?outs"
  proof -
    have "2 \<le> length (fs_vout st)" using n0 by (rule order_trans)
    then show ?thesis by auto
  qed
  show ?thesis
  proof (cases "?n = 1")
    case True
    have step: "fill_pos_step env script pay st
                 = Some (st\<lparr>fs_outputs := ?n, fs_vout := subtract_at 1 pay ?outs\<rparr>)"
      using len mint True unfolding fill_pos_step_def Let_def outputs at1 by simp
    have "total_out (subtract_at 1 pay ?outs) = total_out (fs_vout st)"
      using len True total by (simp add: total_out_subtract_at)
    moreover have "drop n0 (subtract_at 1 pay ?outs) = drop n0 (fs_vout st) @ [?po]"
      using n0 dropo by (simp add: drop_subtract_at)
    moreover have "scriptPubKey (subtract_at 1 pay ?outs ! 1) = scriptPubKey (fs_vout st ! 1)"
      using script_subtract_at [OF l1, of 1 pay] at1 by simp
    ultimately show ?thesis unfolding step by simp
  next
    case False
    then have gt: "?n > 1" using len by simp
    let ?split = "pay sdiv int ?n"
    let ?rem = "pay - ?split * int ?n"
    let ?f = "fold (\<lambda>j. subtract_at j ?split) [1..<Suc ?n] ?outs"
    have step: "fill_pos_step env script pay st
                 = Some (st\<lparr>fs_outputs := ?n, fs_vout := subtract_at ?n ?rem ?f\<rparr>)"
      using len mint False gt unfolding fill_pos_step_def Let_def outputs at1 by simp
    have f: "length ?f = length ?outs" "total_out ?f = total_out ?outs - int ?n * ?split"
      "\<forall>m > ?n. drop m ?f = drop m ?outs"
      "\<forall>k < length ?outs. scriptPubKey (?f ! k) = scriptPubKey (?outs ! k)"
      using fold_subtract_at [OF len(1), of ?split] by blast+
    have "total_out (subtract_at ?n ?rem ?f) = total_out (fs_vout st)"
      using len f total by (simp add: total_out_subtract_at algebra_simps)
    moreover have "drop n0 (subtract_at ?n ?rem ?f) = drop n0 (fs_vout st) @ [?po]"
      using n0 dropo f(3) by (simp add: drop_subtract_at)
    moreover have "scriptPubKey (subtract_at ?n ?rem ?f ! 1) = scriptPubKey (fs_vout st ! 1)"
    proof -
      have "1 < length ?f" using l1 f(1) by simp
      then have "scriptPubKey (subtract_at ?n ?rem ?f ! 1) = scriptPubKey (?f ! 1)"
        by (rule script_subtract_at)
      also have "\<dots> = scriptPubKey (?outs ! 1)" using f(4) l1 by blast
      finally show ?thesis using at1 by simp
    qed
    moreover have "length (subtract_at ?n ?rem ?f) = Suc (length (fs_vout st))"
      using f(1) by simp
    ultimately show ?thesis unfolding step by simp
  qed
qed

lemma paid_outputs_Cons:
  "paid_outputs env s h pos fz v (l # ls) =
     (case fill_payee env s h l of
        None \<Rightarrow> paid_outputs env s h pos fz v ls
      | Some script \<Rightarrow> \<lparr>nValue = GetMasternodePayment env h v pos l 0 fz, scriptPubKey = script\<rparr>
                        # paid_outputs env s h pos fz v ls)"
  by (simp add: paid_outputs_def payment_out_def map_filter_simps split: option.splits)

lemma paid_outputs_Nil [simp]: "paid_outputs env s h pos fz v [] = []"
  by (simp add: paid_outputs_def map_filter_simps)

lemma fill_loop_pos:
  assumes "2 \<le> n0" "n0 \<le> length (fs_vout st)" "1 \<le> fs_level st"
    and "fs_level st = 1 \<longrightarrow> length (fs_vout st) = n0"
    and "fs_level st \<noteq> 1 \<longrightarrow> fs_outputs st = n0 - 1"
    and "\<not> IsZerocoinMint env (scriptPubKey (fs_vout st ! 1))"
  shows "\<exists>st'. fill_loop (fill_level env s h True fz v) levels st = Some st'
      \<and> total_out (fs_vout st') = total_out (fs_vout st)
      \<and> drop n0 (fs_vout st') = drop n0 (fs_vout st) @ paid_outputs env s h True fz v levels"
  using assms
proof (induction levels arbitrary: st)
  case Nil
  show ?case by simp
next
  case (Cons l ls)
  show ?case
  proof (cases "fill_payee env s h l")
    case None
    then have "fill_level env s h True fz v l st = Some st"
      by (simp add: fill_level_def)
    then show ?thesis
      using Cons.IH [of st] Cons.prems None by (simp add: paid_outputs_Cons)
  next
    case (Some script)
    let ?pay = "GetMasternodePayment env h v True l 0 fz"
    obtain st1 where st1: "fill_pos_step env script ?pay st = Some st1"
      "fs_level st1 = fs_level st" "fs_outputs st1 = n0 - 1"
      "length (fs_vout st1) = Suc (length (fs_vout st))"
      "total_out (fs_vout st1) = total_out (fs_vout st)"
      "drop n0 (fs_vout st1) = drop n0 (fs_vout st) @ [\<lparr>nValue = ?pay, scriptPubKey = script\<rparr>]"
      "scriptPubKey (fs_vout st1 ! 1) = scriptPubKey (fs_vout st ! 1)"
      using fill_pos_step_ok [OF Cons.prems(1,2,4,5,6), of script ?pay] by blast
    let ?st2 = "st1\<lparr>fs_level := fs_level st1 + 1\<rparr>"
    have step: "fill_level env s h True fz v l st = Some ?st2"
      using Some st1(1) by (simp add: fill_level_def Let_def)
    have "\<exists>st'. fill_loop (fill_level env s h True fz v) ls ?st2 = Some st'
      \<and> total_out (fs_vout st') = total_out (fs_vout ?st2)
      \<and> drop n0 (fs_vout st') = drop n0 (fs_vout ?st2) @ paid_outputs env s h True fz v ls"
      using Cons.prems st1 by (intro Cons.IH) simp_all
    then show ?thesis
      using step st1 Some by (auto simp: paid_outputs_Cons)
  qed
qed

lemma fill_loop_pos_exact:
  assumes "2 \<le> n0" "length B = n0" "fs_vout st = B @ Q" "1 \<le> fs_level st"
    and "fs_level st = 1 \<longrightarrow> Q = []"
    and "fs_level st \<noteq> 1 \<longrightarrow> fs_outputs st = n0 - 1"
    and "\<not> IsZerocoinMint env (scriptPubKey (B ! 1))"
  shows "\<exists>st'. fill_loop (fill_level env s h True fz v) levels st = Some st'
      \<and> fs_vout st' = fold (spec_charge_stake (n0 - 1))
                         (map nValue (paid_outputs env s h True fz v levels)) B
                       @ Q @ paid_outputs env s h True fz v levels"
  using assms
proof (induction levels arbitrary: st B Q)
  case Nil
  then show ?case by simp
next
  case (Cons l ls)
  show ?case
  proof (cases "fill_payee env s h l")
    case None
    then have "fill_level env s h True fz v l st = Some st"
      by (simp add: fill_level_def)
    then show ?thesis
      using Cons.IH [of B st Q] Cons.prems None by (simp add: paid_outputs_Cons)
  next
    case (Some script)
    let ?pay = "GetMasternodePayment env h v True l 0 fz"
    let ?po = "\<lparr>nValue = ?pay, scriptPubKey = script\<rparr>"
    let ?B = "spec_charge_stake (n0 - 1) ?pay B"
    let ?st1 = "st\<lparr>fs_outputs := n0 - 1,
                    fs_vout := spec_charge_stake (n0 - 1) ?pay (fs_vout st @ [?po])\<rparr>"
    let ?st2 = "?st1\<lparr>fs_level := fs_level ?st1 + 1\<rparr>"
    have B1: "fs_vout st ! 1 = B ! 1"
      using Cons.prems(1,2,3) by (simp add: nth_append)
    have st1: "fill_pos_step env script ?pay st = Some ?st1"
      using Cons.prems B1 by (intro fill_pos_step_exact) auto
    have step: "fill_level env s h True fz v l st = Some ?st2"
      using Some st1 by (simp add: fill_level_def Let_def)
    have app: "spec_charge_stake (n0 - 1) ?pay (fs_vout st @ [?po]) = ?B @ (Q @ [?po])"
      using Cons.prems(1,2,3) spec_charge_stake_append [of "n0 - 1" B ?pay "Q @ [?po]"] by simp
    have scr: "scriptPubKey (?B ! 1) = scriptPubKey (B ! 1)"
      using Cons.prems(1,2) by (simp add: nth_spec_charge_stake)
    have "\<exists>st'. fill_loop (fill_level env s h True fz v) ls ?st2 = Some st'
      \<and> fs_vout st' = fold (spec_charge_stake (n0 - 1))
                         (map nValue (paid_outputs env s h True fz v ls)) ?B
                       @ (Q @ [?po]) @ paid_outputs env s h True fz v ls"
      using Cons.prems app scr by (intro Cons.IH) simp_all
    then show ?thesis
      using step Some by (auto simp: paid_outputs_Cons)
  qed
qed

lemma fill_pow_step_ok:
  assumes "1 \<le> fs_level st"
    and "fs_level st > 1 \<longrightarrow> length (fs_vout st) = fs_level st \<and> total_out (fs_vout st) = v"
  shows "fs_level (fill_pow_step v script pay st) = fs_level st
      \<and> length (fs_vout (fill_pow_step v script pay st)) = Suc (fs_level st)
      \<and> total_out (fs_vout (fill_pow_step v script pay st)) = v
      \<and> drop 1 (fs_vout (fill_pow_step v script pay st))
          = (if fs_level st = 1 then [] else drop 1 (fs_vout st))
            @ [\<lparr>nValue = pay, scriptPubKey = script\<rparr>]"
proof (cases "fs_level st = 1")
  case True
  let ?r = "resize (Suc (Suc 0)) (fs_vout st)"
  have len: "length ?r = Suc (Suc 0)" by (simp add: resize_def)
  then obtain a b where r: "?r = [a, b]"
    by (auto simp: length_Suc_conv)
  show ?thesis
    using True r by (simp add: fill_pow_step_def Let_def total_out_def)
next
  case False
  then have k: "fs_level st > 1" "length (fs_vout st) = fs_level st" "total_out (fs_vout st) = v"
    using assms by auto
  have r: "resize (1 + fs_level st) (fs_vout st) = fs_vout st @ [CTxOut_null]"
    using k by (simp add: resize_def)
  have "(fs_vout st @ [CTxOut_null])[length (fs_vout st) := \<lparr>nValue = pay, scriptPubKey = script\<rparr>]
             = fs_vout st @ [\<lparr>nValue = pay, scriptPubKey = script\<rparr>]"
    by (rule list_update_length)
  then have u: "(fs_vout st @ [CTxOut_null])[fs_level st := \<lparr>nValue = pay, scriptPubKey = script\<rparr>]
             = fs_vout st @ [\<lparr>nValue = pay, scriptPubKey = script\<rparr>]"
    unfolding k(2) .
  have pos: "0 < length (fs_vout st @ [\<lparr>nValue = pay, scriptPubKey = script\<rparr>])" by simp
  have d: "drop 1 (subtract_at 0 pay (fs_vout st @ [\<lparr>nValue = pay, scriptPubKey = script\<rparr>]))
            = drop 1 (fs_vout st) @ [\<lparr>nValue = pay, scriptPubKey = script\<rparr>]"
    using k by (simp add: drop_subtract_at)
  have eq: "fill_pow_step v script pay st
             = st\<lparr>fs_vout := subtract_at 0 pay (fs_vout st @ [\<lparr>nValue = pay, scriptPubKey = script\<rparr>])\<rparr>"
    unfolding fill_pow_step_def Let_def r u using False by simp
  show ?thesis
    unfolding eq using False k d total_out_subtract_at [OF pos, of pay]
    by (simp add: total_out_def)
qed

lemma fill_loop_pow:
  assumes "1 \<le> fs_level st"
    and "fs_level st > 1 \<longrightarrow> length (fs_vout st) = fs_level st \<and> total_out (fs_vout st) = v"
  shows "\<exists>st'. fill_loop (fill_level env s h False fz v) levels st = Some st'
      \<and> (paid_outputs env s h False fz v levels = [] \<longrightarrow> st' = st)
      \<and> (paid_outputs env s h False fz v levels \<noteq> [] \<longrightarrow>
            total_out (fs_vout st') = v
            \<and> drop 1 (fs_vout st') = (if fs_level st = 1 then [] else drop 1 (fs_vout st))
                                      @ paid_outputs env s h False fz v levels)"
  using assms
proof (induction levels arbitrary: st)
  case Nil
  show ?case by simp
next
  case (Cons l ls)
  show ?case
  proof (cases "fill_payee env s h l")
    case None
    then have "fill_level env s h False fz v l st = Some st"
      by (simp add: fill_level_def)
    then show ?thesis
      using Cons.IH [of st] Cons.prems None by (simp add: paid_outputs_Cons)
  next
    case (Some script)
    let ?pay = "GetMasternodePayment env h v False l 0 fz"
    let ?po = "\<lparr>nValue = ?pay, scriptPubKey = script\<rparr>"
    let ?st1 = "fill_pow_step v script ?pay st"
    let ?st2 = "?st1\<lparr>fs_level := fs_level ?st1 + 1\<rparr>"
    have st1: "fs_level ?st1 = fs_level st" "length (fs_vout ?st1) = Suc (fs_level st)"
      "total_out (fs_vout ?st1) = v"
      "drop 1 (fs_vout ?st1) = (if fs_level st = 1 then [] else drop 1 (fs_vout st)) @ [?po]"
      using fill_pow_step_ok [OF Cons.prems, of script ?pay] by blast+
    have step: "fill_level env s h False fz v l st = Some ?st2"
      using Some by (simp add: fill_level_def Let_def)
    have "\<exists>st'. fill_loop (fill_level env s h False fz v) ls ?st2 = Some st'
      \<and> (paid_outputs env s h False fz v ls = [] \<longrightarrow> st' = ?st2)
      \<and> (paid_outputs env s h False fz v ls \<noteq> [] \<longrightarrow>
            total_out (fs_vout st') = v
            \<and> drop 1 (fs_vout st') = (if fs_level ?st2 = 1 then [] else drop 1 (fs_vout ?st2))
                                      @ paid_outputs env s h False fz v ls)"
      using Cons.prems st1 by (intro Cons.IH) simp_all
    then obtain st' where st':
      "fill_loop (fill_level env s h False fz v) ls ?st2 = Some st'"
      "paid_outputs env s h False fz v ls = [] \<longrightarrow> st' = ?st2"
      "paid_outputs env s h False fz v ls \<noteq> [] \<longrightarrow>
            total_out (fs_vout st') = v
            \<and> drop 1 (fs_vout st') = (if fs_level ?st2 = 1 then [] else drop 1 (fs_vout ?st2))
                                      @ paid_outputs env s h False fz v ls"
      by blast
    have lvl2: "fs_level ?st2 \<noteq> 1" using st1(1) Cons.prems(1) by simp
    have "total_out (fs_vout st') = v
          \<and> drop 1 (fs_vout st') = (if fs_level st = 1 then [] else drop 1 (fs_vout st))
                                    @ ?po # paid_outputs env s h False fz v ls"
    proof (cases "paid_outputs env s h False fz v ls = []")
      case True
      then have "st' = ?st2" using st'(2) by blast
      then show ?thesis using st1 True by simp
    next
      case False
      then show ?thesis using st'(3) lvl2 st1 by simp
    qed
    then show ?thesis
      using step st'(1) Some by (simp add: paid_outputs_Cons)
  qed
qed

text \<open>
  Claim C7, amended. On a node with a chain tip, the tiers being numbered from 1,
  \<open>FillBlockPayee\<close> returns. For proof-of-work: when no tier has a payee the transaction is
  unchanged; otherwise the outputs after output 0 are exactly the payments of the tiers and
  the sum of all output values is the block value (the fees do not enter). For
  proof-of-stake, on a transaction with at least one stake output whose first stake output
  is not a zerocoin mint: the outputs are those of the transaction, each stake output
  charged its share of every payment (the quotient of the payment by the number of stake
  outputs, and the remainder too for the last one), followed by the payments of the tiers;
  and the sum of all output values is the same as before the call.
\<close>

theorem FillBlockPayee_conservation:
  assumes "chainActive_Tip env = Some pindexPrev" and "LevelValue_MIN env = 1"
  shows
    "(\<exists>tx'. CMasternodePayments_FillBlockPayee env s tx nFees False fZSPLStake nBlockValue = Some tx'
        \<and> (paid_outputs env s (pindex_nHeight pindexPrev + 1) False fZSPLStake nBlockValue
              (fill_levels env) = [] \<longrightarrow> tx' = tx)
        \<and> (paid_outputs env s (pindex_nHeight pindexPrev + 1) False fZSPLStake nBlockValue
              (fill_levels env) \<noteq> [] \<longrightarrow>
              total_out (vout tx') = nBlockValue
              \<and> drop 1 (vout tx') =
                  paid_outputs env s (pindex_nHeight pindexPrev + 1) False fZSPLStake nBlockValue
                    (fill_levels env)))
     \<and> (2 \<le> length (vout tx) \<and> \<not> IsZerocoinMint env (scriptPubKey (vout tx ! 1)) \<longrightarrow>
          (\<exists>tx'. CMasternodePayments_FillBlockPayee env s tx nFees True fZSPLStake nBlockValue = Some tx'
             \<and> vout tx' =
                 fold (spec_charge_stake (length (vout tx) - 1))
                   (map nValue
                      (paid_outputs env s (pindex_nHeight pindexPrev + 1) True fZSPLStake nBlockValue
                         (fill_levels env)))
                   (vout tx)
                 @ paid_outputs env s (pindex_nHeight pindexPrev + 1) True fZSPLStake nBlockValue
                     (fill_levels env)
             \<and> total_out (vout tx') = total_out (vout tx)))"
proof (intro conjI impI)
  let ?st = "\<lparr>fs_vout = vout tx, fs_level = 1, fs_outputs = 1\<rparr>"
  let ?h = "pindex_nHeight pindexPrev + 1"
  have "\<exists>st'. fill_loop (fill_level env s ?h False fZSPLStake nBlockValue) (fill_levels env) ?st = Some st'
      \<and> (paid_outputs env s ?h False fZSPLStake nBlockValue (fill_levels env) = [] \<longrightarrow> st' = ?st)
      \<and> (paid_outputs env s ?h False fZSPLStake nBlockValue (fill_levels env) \<noteq> [] \<longrightarrow>
            total_out (fs_vout st') = nBlockValue
            \<and> drop 1 (fs_vout st') = (if fs_level ?st = 1 then [] else drop 1 (fs_vout ?st))
                                      @ paid_outputs env s ?h False fZSPLStake nBlockValue (fill_levels env))"
    by (rule fill_loop_pow) simp_all
  then show "\<exists>tx'. CMasternodePayments_FillBlockPayee env s tx nFees False fZSPLStake nBlockValue = Some tx'
        \<and> (paid_outputs env s ?h False fZSPLStake nBlockValue (fill_levels env) = [] \<longrightarrow> tx' = tx)
        \<and> (paid_outputs env s ?h False fZSPLStake nBlockValue (fill_levels env) \<noteq> [] \<longrightarrow>
              total_out (vout tx') = nBlockValue
              \<and> drop 1 (vout tx') =
                  paid_outputs env s ?h False fZSPLStake nBlockValue (fill_levels env))"
    using assms by (auto simp: CMasternodePayments_FillBlockPayee_def)
next
  let ?st = "\<lparr>fs_vout = vout tx, fs_level = 1, fs_outputs = 1\<rparr>"
  let ?h = "pindex_nHeight pindexPrev + 1"
  let ?P = "paid_outputs env s ?h True fZSPLStake nBlockValue (fill_levels env)"
  assume pre: "2 \<le> length (vout tx) \<and> \<not> IsZerocoinMint env (scriptPubKey (vout tx ! 1))"
  have "\<exists>st'. fill_loop (fill_level env s ?h True fZSPLStake nBlockValue) (fill_levels env) ?st = Some st'
      \<and> total_out (fs_vout st') = total_out (fs_vout ?st)
      \<and> drop (length (vout tx)) (fs_vout st') = drop (length (vout tx)) (fs_vout ?st) @ ?P"
    using pre by (intro fill_loop_pos) simp_all
  moreover have "\<exists>st'. fill_loop (fill_level env s ?h True fZSPLStake nBlockValue) (fill_levels env) ?st = Some st'
      \<and> fs_vout st' = fold (spec_charge_stake (length (vout tx) - 1)) (map nValue ?P) (vout tx)
                       @ [] @ ?P"
    using pre by (intro fill_loop_pos_exact) simp_all
  ultimately show "\<exists>tx'. CMasternodePayments_FillBlockPayee env s tx nFees True fZSPLStake nBlockValue = Some tx'
             \<and> vout tx' = fold (spec_charge_stake (length (vout tx) - 1)) (map nValue ?P) (vout tx) @ ?P
             \<and> total_out (vout tx') = total_out (vout tx)"
    using assms by (auto simp: CMasternodePayments_FillBlockPayee_def)
qed

text \<open>
  Claim C7 says that after \<open>FillBlockPayee\<close> the outputs of a proof-of-work transaction
  sum to the block value plus the fees. The function never reads \<open>nFees\<close>: with a block
  value of 100 and fees of 5 the outputs sum to 100, not to 105.
\<close>

theorem FillBlockPayee_fees_counterexample:
  "map_option (\<lambda>tx'. total_out (vout tx') = 100 + 5)
     (CMasternodePayments_FillBlockPayee env0 store_5001 (tx_of [txout 0 [9]]) 5 False False 100)
   = Some False
   \<and> map_option (\<lambda>tx'. total_out (vout tx'))
     (CMasternodePayments_FillBlockPayee env0 store_5001 (tx_of [txout 0 [9]]) 5 False False 100)
   = Some 100"
  by (simp add: CMasternodePayments_FillBlockPayee_def env0_def store_5001_def empty_store_def
        tx_of_def txout_def fill_levels_def fill_level_def fill_payee_def GetBlockPayee_def GetPayee_def
        payee_record_def better_payee_def fill_pos_step_def fill_pow_step_def resize_def subtract_at_def
        CTxOut_null_def total_out_def upt_rec signed_divide_int_def Let_def)

text \<open>
  Proof-of-work with three tiers, two of them with a payee: outputs 60, 10 and 30 for a
  block value of 100. Proof-of-stake with a stake split in two and a payment of 30000001:
  15000000 is taken from each stake output and the remainder 1 from the last one.
\<close>

theorem FillBlockPayee_conservation_witness:
  "chainActive_Tip env0 = Some \<lparr>phashBlock = 7, pindex_nHeight = 5000\<rparr>
   \<and> LevelValue_MIN env0 = 1
   \<and> CMasternodePayments_FillBlockPayee env0 store_5001 (tx_of [txout 0 [9]]) 5 False False 100
       = Some (tx_of [txout 60 [9], txout 10 [6], txout 30 [5]])
   \<and> total_out [txout 60 [9], txout 10 [6], txout 30 [5]] = 100
   \<and> 2 \<le> length (vout (tx_of [txout 0 [], txout 100000000 [9], txout 100000000 [9]]))
   \<and> \<not> IsZerocoinMint env0
          (scriptPubKey (vout (tx_of [txout 0 [], txout 100000000 [9], txout 100000000 [9]]) ! 1))
   \<and> paid_outputs (env0\<lparr>SPORK_18_NEW_MASTERNODE_TIERS := False\<rparr>) store_5001 5001 True False
        100000004 (fill_levels (env0\<lparr>SPORK_18_NEW_MASTERNODE_TIERS := False\<rparr>))
       = [txout 30000001 [5]]
   \<and> spec_charge_stake 2 30000001 [txout 0 [], txout 100000000 [9], txout 100000000 [9]]
       = [txout 0 [], txout 85000000 [9], txout 84999999 [9]]
   \<and> CMasternodePayments_FillBlockPayee (env0\<lparr>SPORK_18_NEW_MASTERNODE_TIERS := False\<rparr>) store_5001
        (tx_of [txout 0 [], txout 100000000 [9], txout 100000000 [9]]) 5 True False 100000004
       = Some (tx_of [txout 0 [], txout 85000000 [9], txout 84999999 [9], txout 30000001 [5]])
   \<and> total_out [txout 0 [], txout 85000000 [9], txout 84999999 [9], txout 30000001 [5]]
       = total_out [txout 0 [], txout 100000000 [9], txout 100000000 [9]]"
proof -
  have ev: ?thesis
  by (simp add: CMasternodePayments_FillBlockPayee_def env0_def store_5001_def empty_store_def
        tx_of_def txout_def fill_levels_def fill_level_def fill_payee_def GetBlockPayee_def GetPayee_def
        payee_record_def better_payee_def fill_pos_step_def fill_pow_step_def resize_def subtract_at_def
        CTxOut_null_def total_out_def upt_rec signed_divide_int_def Let_def
        paid_outputs_def payment_out_def map_filter_simps spec_charge_stake_def spec_stake_share_def
        enumerate_eq_zip)
  show ?thesis
    using FillBlockPayee_conservation [of env0 "\<lparr>phashBlock = 7, pindex_nHeight = 5000\<rparr>"
          store_5001 "tx_of [txout 0 [9]]" 5 False 100]
      FillBlockPayee_conservation [of "env0\<lparr>SPORK_18_NEW_MASTERNODE_TIERS := False\<rparr>"
          "\<lparr>phashBlock = 7, pindex_nHeight = 5000\<rparr>"
          store_5001 "tx_of [txout 0 [], txout 100000000 [9], txout 100000000 [9]]" 5 False 100000004]
      ev
    by fast
qed

section \<open>The builder against the tally check\<close>














section \<open>The horizon of the votes\<close>

lemma CleanPaymentList_loop_filter:
  "mapMasternodePayeeVotes (CleanPaymentList_loop nHeight nLimit its s) =
     filter (\<lambda>p. fst p \<notin> fst ` set (filter (aged nHeight nLimit) its)) (mapMasternodePayeeVotes s)
   \<and> mapMasternodeBlocks (CleanPaymentList_loop nHeight nLimit its s) =
     filter (\<lambda>p. fst p \<notin> (\<lambda>it. nBlockHeight (snd it)) ` set (filter (aged nHeight nLimit) its))
       (mapMasternodeBlocks s)
   \<and> nLastBlockHeight (CleanPaymentList_loop nHeight nLimit its s) = nLastBlockHeight s"
proof (induction its arbitrary: s)
  case Nil
  show ?case by simp
next
  case (Cons it its)
  show ?case
  proof (cases "aged nHeight nLimit it")
    case False
    then show ?thesis using Cons by (simp add: aged_def)
  next
    case True
    let ?s1 = "s\<lparr>mapSeenSyncMNW := AList.delete (fst it) (mapSeenSyncMNW s),
                 mapMasternodePayeeVotes := AList.delete (fst it) (mapMasternodePayeeVotes s),
                 mapMasternodeBlocks := AList.delete (nBlockHeight (snd it)) (mapMasternodeBlocks s)\<rparr>"
    have step: "CleanPaymentList_loop nHeight nLimit (it # its) s
                  = CleanPaymentList_loop nHeight nLimit its ?s1"
      using True by (simp add: aged_def)
    show ?thesis
      unfolding step using Cons [of ?s1] True
      by (auto simp: AList.delete_eq intro!: filter_cong)
  qed
qed

lemma CleanPaymentList_votes:
  assumes "TRY_LOCK_cs_main env" "chainActive_Tip env = Some tip"
  shows "mapMasternodePayeeVotes (CleanPaymentList env s) =
     filter (\<lambda>p. fst p \<notin> fst ` set (filter
                (aged (pindex_nHeight tip) (max ((5 * mnodeman_size env) sdiv 4) 1000))
                (mapMasternodePayeeVotes s)))
       (mapMasternodePayeeVotes s)"
    and "mapMasternodeBlocks (CleanPaymentList env s) =
     filter (\<lambda>p. fst p \<notin> (\<lambda>it. nBlockHeight (snd it)) ` set (filter
                (aged (pindex_nHeight tip) (max ((5 * mnodeman_size env) sdiv 4) 1000))
                (mapMasternodePayeeVotes s)))
       (mapMasternodeBlocks s)"
  using assms CleanPaymentList_loop_filter
    [of "pindex_nHeight tip" "max ((5 * mnodeman_size env) sdiv 4) 1000" "mapMasternodePayeeVotes s" s]
  by (simp_all add: CleanPaymentList_def)

lemma nFirstBlock_ceiling:
  assumes "0 \<le> CountEnabled env level" "5 * CountEnabled env level \<le> 4 * nHeight"
  shows "nFirstBlock env nHeight level = nHeight - (5 * CountEnabled env level + 3) div 4"
proof -
  let ?k = "4 * nHeight - 5 * CountEnabled env level"
  have "0 \<le> ?k" using assms by simp
  then have "?k sdiv 4 = ?k div 4"
    by (cases "?k = 0") (simp_all add: signed_divide_int_def sgn_if)
  then show ?thesis unfolding nFirstBlock_def by presburger
qed

lemma window_rejects:
  assumes "chainActive_Tip env = Some tip"
    and "nBlockHeight (snd (resolve_winner env winner0))
           < nFirstBlock env (pindex_nHeight tip) (payeeLevel (snd (resolve_winner env winner0)))
         \<or> nBlockHeight (snd (resolve_winner env winner0)) > pindex_nHeight tip + 20"
  shows "fst (ProcessMessageMasternodePayments env pfrom_nVersion strCommand winner0 s) = s"
  using assms by (auto simp: ProcessMessageMasternodePayments_def Let_def)

text \<open>
  Claim C5, amended. After a prune that reads the tip, with
  \<open>N = max (int (1.25 * size of the registry)) 1000\<close>: every vote left has a height of at
  least \<open>tip - N\<close>; no vote is added; every vote with \<open>tip - height > N\<close> is gone together
  with the tally at its height; and when the keys of the votes are distinct, the votes left
  are exactly those with \<open>tip - height \<le> N\<close>. The prune sets no upper bound. The handler
  leaves the store unchanged on a vote whose height is below \<open>nFirstBlock\<close> or above
  \<open>tip + 20\<close>, where \<open>nFirstBlock\<close> is \<open>tip - 1.25 * count\<close> truncated towards zero: for a
  count of the tier between 0 and \<open>0.8 * tip\<close> that is \<open>tip\<close> minus \<open>1.25 * count\<close> rounded up.
\<close>

theorem horizon_after_prune:
  "(TRY_LOCK_cs_main env \<and> chainActive_Tip env = Some tip \<longrightarrow>
      (let N = max ((5 * mnodeman_size env) sdiv 4) 1000; s' = CleanPaymentList env s
       in (\<forall>(k, w) \<in> set (mapMasternodePayeeVotes s'). pindex_nHeight tip - N \<le> nBlockHeight w)
          \<and> set (mapMasternodePayeeVotes s') \<subseteq> set (mapMasternodePayeeVotes s)
          \<and> (\<forall>(k, w) \<in> set (mapMasternodePayeeVotes s).
                pindex_nHeight tip - nBlockHeight w > N \<longrightarrow>
                  map_of (mapMasternodePayeeVotes s') k = None
                  \<and> map_of (mapMasternodeBlocks s') (nBlockHeight w) = None)
          \<and> (distinct (map fst (mapMasternodePayeeVotes s)) \<longrightarrow>
                mapMasternodePayeeVotes s' =
                  filter (\<lambda>(k, w). pindex_nHeight tip - nBlockHeight w \<le> N)
                    (mapMasternodePayeeVotes s))))
   \<and> (chainActive_Tip env = Some tip
        \<and> (nBlockHeight (snd (resolve_winner env winner0))
              < nFirstBlock env (pindex_nHeight tip) (payeeLevel (snd (resolve_winner env winner0)))
            \<or> nBlockHeight (snd (resolve_winner env winner0)) > pindex_nHeight tip + 20) \<longrightarrow>
        fst (ProcessMessageMasternodePayments env pfrom_nVersion strCommand winner0 s) = s)
   \<and> (0 \<le> CountEnabled env level \<and> 5 * CountEnabled env level \<le> 4 * nHeight \<longrightarrow>
        nFirstBlock env nHeight level = nHeight - (5 * CountEnabled env level + 3) div 4)"
proof (intro conjI impI)
  assume pre: "TRY_LOCK_cs_main env \<and> chainActive_Tip env = Some tip"
  let ?N = "max ((5 * mnodeman_size env) sdiv 4) 1000"
  let ?h = "pindex_nHeight tip"
  let ?votes = "mapMasternodePayeeVotes s"
  let ?old = "filter (aged ?h ?N) ?votes"
  have v: "mapMasternodePayeeVotes (CleanPaymentList env s)
            = filter (\<lambda>p. fst p \<notin> fst ` set ?old) ?votes"
    and b: "mapMasternodeBlocks (CleanPaymentList env s)
            = filter (\<lambda>p. fst p \<notin> (\<lambda>it. nBlockHeight (snd it)) ` set ?old) (mapMasternodeBlocks s)"
    using CleanPaymentList_votes [of env tip s] pre by blast+
  have 1: "\<forall>(k, w) \<in> set (mapMasternodePayeeVotes (CleanPaymentList env s)). ?h - ?N \<le> nBlockHeight w"
    unfolding v by (force simp: aged_def)
  have 2: "set (mapMasternodePayeeVotes (CleanPaymentList env s)) \<subseteq> set ?votes"
    unfolding v by auto
  have 3: "\<forall>(k, w) \<in> set ?votes. ?h - nBlockHeight w > ?N \<longrightarrow>
             map_of (mapMasternodePayeeVotes (CleanPaymentList env s)) k = None
             \<and> map_of (mapMasternodeBlocks (CleanPaymentList env s)) (nBlockHeight w) = None"
    unfolding v b map_of_eq_None_iff by (force simp: aged_def)
  have 4: "distinct (map fst ?votes) \<longrightarrow>
             mapMasternodePayeeVotes (CleanPaymentList env s)
               = filter (\<lambda>(k, w). ?h - nBlockHeight w \<le> ?N) ?votes"
  proof
    assume d: "distinct (map fst ?votes)"
    have "fst p \<notin> fst ` set ?old \<longleftrightarrow> (case p of (k, w) \<Rightarrow> ?h - nBlockHeight w \<le> ?N)"
      if p: "p \<in> set ?votes" for p
    proof
      assume "fst p \<notin> fst ` set ?old"
      then have "\<not> aged ?h ?N p" using p by auto
      then show "case p of (k, w) \<Rightarrow> ?h - nBlockHeight w \<le> ?N"
        by (cases p) (simp add: aged_def not_less del: max_less_iff_conj)
    next
      assume np: "case p of (k, w) \<Rightarrow> ?h - nBlockHeight w \<le> ?N"
      show "fst p \<notin> fst ` set ?old"
      proof
        assume "fst p \<in> fst ` set ?old"
        then obtain q where q: "q \<in> set ?votes" "aged ?h ?N q" "fst q = fst p" by auto
        have "q = p"
          using d p q(1,3) eq_key_imp_eq_value [of ?votes "fst p" "snd q" "snd p"]
          by (cases p, cases q) auto
        then show False using q(2) np by (cases p) (simp add: aged_def not_less del: max_less_iff_conj)
      qed
    qed
    then show "mapMasternodePayeeVotes (CleanPaymentList env s)
               = filter (\<lambda>(k, w). ?h - nBlockHeight w \<le> ?N) ?votes"
      unfolding v by (intro filter_cong) auto
  qed
  show "let N = ?N; s' = CleanPaymentList env s
       in (\<forall>(k, w) \<in> set (mapMasternodePayeeVotes s'). pindex_nHeight tip - N \<le> nBlockHeight w)
          \<and> set (mapMasternodePayeeVotes s') \<subseteq> set (mapMasternodePayeeVotes s)
          \<and> (\<forall>(k, w) \<in> set (mapMasternodePayeeVotes s).
                pindex_nHeight tip - nBlockHeight w > N \<longrightarrow>
                  map_of (mapMasternodePayeeVotes s') k = None
                  \<and> map_of (mapMasternodeBlocks s') (nBlockHeight w) = None)
          \<and> (distinct (map fst (mapMasternodePayeeVotes s)) \<longrightarrow>
                mapMasternodePayeeVotes s' =
                  filter (\<lambda>(k, w). pindex_nHeight tip - nBlockHeight w \<le> N)
                    (mapMasternodePayeeVotes s))"
    unfolding Let_def using 1 2 3 4 by blast
next
  assume "chainActive_Tip env = Some tip
        \<and> (nBlockHeight (snd (resolve_winner env winner0))
              < nFirstBlock env (pindex_nHeight tip) (payeeLevel (snd (resolve_winner env winner0)))
            \<or> nBlockHeight (snd (resolve_winner env winner0)) > pindex_nHeight tip + 20)"
  then show "fst (ProcessMessageMasternodePayments env pfrom_nVersion strCommand winner0 s) = s"
    using window_rejects by blast
next
  assume "0 \<le> CountEnabled env level \<and> 5 * CountEnabled env level \<le> 4 * nHeight"
  then show "nFirstBlock env nHeight level = nHeight - (5 * CountEnabled env level + 3) div 4"
    using nFirstBlock_ceiling by blast
qed

text \<open>
  Claim C5 says that after any prune every vote has a height of at most \<open>tip + 20\<close>, and
  that the handler rejects a vote below \<open>tip - floor (1.25 * count)\<close>. A vote for height
  5021 admitted at tip 5001 is still there after a prune at tip 5000; and at tip 5000 with
  one enabled masternode of the tier, a vote for height 4998, below 5000 - 1 = 4999, is
  admitted.
\<close>

theorem horizon_counterexample:
  "map (\<lambda>(k, w). nBlockHeight w)
     (mapMasternodePayeeVotes
        (CleanPaymentList (at_tip env_net 5000)
           (fst (ProcessMessageMasternodePayments (at_tip env_net 5001) 70000 ''mnw''
                   (vote_for 1 5021 [5] 3) empty_store))))
     = [5021]
   \<and> map (\<lambda>(k, w). nBlockHeight w)
       (mapMasternodePayeeVotes
          (fst (ProcessMessageMasternodePayments (env_net\<lparr>CountEnabled := (\<lambda>level. 1)\<rparr>) 70000 ''mnw''
                  (vote_for 1 4998 [5] 3) empty_store)))
     = [4998]"
  by (simp add: at_tip_def env_net_def env0_def mn_of_def vote_for_def voter_vin_def toy_hash_def empty_store_def
        admit_all_def ProcessMessageMasternodePayments_def resolve_winner_def CTxIn_null_def
        nFirstBlock_def IsValid_def CanVote_def SignatureValid_def strMessage_def
        MNPAYMENTS_SIGNATURES_TOTAL_def AddWinningMasternode_def blocks_at_def AddPayee_def
        CMasternodeBlockPayees_new_def CleanPaymentList_def signed_divide_int_def Let_def)

text \<open>
  Tip 5000 and 800 masternodes, so \<open>N = 1000\<close>: of the votes at heights 3999, 4000 and 5020
  the prune removes the first with its tally; a vote for height 5021 is not admitted.
\<close>

theorem horizon_after_prune_witness:
  "TRY_LOCK_cs_main env_net
   \<and> chainActive_Tip env_net = Some \<lparr>phashBlock = 7, pindex_nHeight = 5000\<rparr>
   \<and> max ((5 * mnodeman_size env_net) sdiv 4) 1000 = 1000
   \<and> map (\<lambda>(k, w). nBlockHeight w)
       (mapMasternodePayeeVotes
         (admit_all env_net [vote_for 1 3999 [5] 3, vote_for 2 4000 [5] 3, vote_for 3 5020 [5] 3]
            empty_store)) = [3999, 4000, 5020]
   \<and> map (\<lambda>(k, w). nBlockHeight w)
       (mapMasternodePayeeVotes (CleanPaymentList env_net
         (admit_all env_net [vote_for 1 3999 [5] 3, vote_for 2 4000 [5] 3, vote_for 3 5020 [5] 3]
            empty_store))) = [4000, 5020]
   \<and> map fst
       (mapMasternodeBlocks (CleanPaymentList env_net
         (admit_all env_net [vote_for 1 3999 [5] 3, vote_for 2 4000 [5] 3, vote_for 3 5020 [5] 3]
            empty_store))) = [4000, 5020]
   \<and> nBlockHeight (snd (resolve_winner env_net (vote_for 4 5021 [5] 3))) > 5000 + 20
   \<and> fst (ProcessMessageMasternodePayments env_net 70000 ''mnw'' (vote_for 4 5021 [5] 3) empty_store)
       = empty_store
   \<and> nFirstBlock (env_net\<lparr>CountEnabled := (\<lambda>level. 1)\<rparr>) 5000 3 = 4998"
proof -
  have ev: ?thesis
    by (simp add: env_net_def env0_def mn_of_def vote_for_def voter_vin_def toy_hash_def empty_store_def
        admit_all_def ProcessMessageMasternodePayments_def resolve_winner_def CTxIn_null_def
        nFirstBlock_def IsValid_def CanVote_def SignatureValid_def strMessage_def
        MNPAYMENTS_SIGNATURES_TOTAL_def AddWinningMasternode_def blocks_at_def AddPayee_def
        CMasternodeBlockPayees_new_def CleanPaymentList_def signed_divide_int_def Let_def)
  show ?thesis
    using horizon_after_prune [of env_net "\<lparr>phashBlock = 7, pindex_nHeight = 5000\<rparr>"
        "admit_all env_net [vote_for 1 3999 [5] 3, vote_for 2 4000 [5] 3, vote_for 3 5020 [5] 3] empty_store"
        "vote_for 4 5021 [5] 3" 70000 "''mnw''" 3 5000]
      ev
    by fast
qed

section \<open>The scores of the inbound handler\<close>

lemma IsValid_scores: "Misbehaving n \<in> set (snd (IsValid env w)) \<Longrightarrow> n = 20"
  by (auto simp: IsValid_def Let_def split: option.splits if_splits)

lemma IsValid_True_no_effect: "fst (IsValid env w) \<Longrightarrow> snd (IsValid env w) = []"
  by (auto simp: IsValid_def Let_def split: option.splits if_splits)

text \<open>
  Claim C9, amended. On a synced node that reads the tip, the handler of an "mnw" vote
  from a peer of the active protocol: drops a vote whose payee is unknown to the registry
  with a request to the registry (a list update for a vote of the old format, else a request
  for the payee) and no score; drops a vote of a voter that has already voted for the
  height and tier with no score and no request; and drops a vote whose signature check
  fails with a request for the voter, and with the score 20 when the node is synced and
  the lock on the chain is taken. The only score the handler ever gives is 20.
\<close>

theorem mnw_peer_scores:
  assumes "IsBlockchainSynced env" "\<not> fLiteMode env" "ActiveProtocol env \<le> pfrom_nVersion"
    and "TRY_LOCK_cs_main env" "chainActive_Tip env = Some tip"
    and "resolve_winner env winner0 = (winner_mn, winner)"
  shows
    "(winner_mn = None \<longrightarrow>
        ProcessMessageMasternodePayments env pfrom_nVersion ''mnw'' winner0 s =
          (s, [if payeeVin winner = CTxIn_null then DsegUpdate else AskForMN (payeeVin winner)]))
     \<and> (winner_mn \<noteq> None
          \<and> map_of (mapMasternodePayeeVotes s) (GetHash env winner) = None
          \<and> nFirstBlock env (pindex_nHeight tip) (payeeLevel winner) \<le> nBlockHeight winner
          \<and> nBlockHeight winner \<le> pindex_nHeight tip + 20
          \<and> fst (IsValid env winner) \<longrightarrow>
          (\<not> CanVote s (prevout (vinMasternode winner)) (nBlockHeight winner) (payeeLevel winner) \<longrightarrow>
             ProcessMessageMasternodePayments env pfrom_nVersion ''mnw'' winner0 s = (s, []))
          \<and> (CanVote s (prevout (vinMasternode winner)) (nBlockHeight winner) (payeeLevel winner)
               \<and> \<not> SignatureValid env winner \<longrightarrow>
             ProcessMessageMasternodePayments env pfrom_nVersion ''mnw'' winner0 s =
               (s, (if IsSynced env \<and> TRY_LOCK_cs_main_Misbehaving env then [Misbehaving 20] else [])
                   @ [AskForMN (vinMasternode winner)])))
     \<and> (\<forall>n. Misbehaving n \<in> set (snd (ProcessMessageMasternodePayments env pfrom_nVersion ''mnw''
                                            winner0 s)) \<longrightarrow> n = 20)"
proof (intro conjI impI allI)
  assume "winner_mn = None"
  then show "ProcessMessageMasternodePayments env pfrom_nVersion ''mnw'' winner0 s =
          (s, [if payeeVin winner = CTxIn_null then DsegUpdate else AskForMN (payeeVin winner)])"
    using assms by (auto simp: ProcessMessageMasternodePayments_def Let_def)
next
  assume a: "winner_mn \<noteq> None
          \<and> map_of (mapMasternodePayeeVotes s) (GetHash env winner) = None
          \<and> nFirstBlock env (pindex_nHeight tip) (payeeLevel winner) \<le> nBlockHeight winner
          \<and> nBlockHeight winner \<le> pindex_nHeight tip + 20
          \<and> fst (IsValid env winner)"
    and "\<not> CanVote s (prevout (vinMasternode winner)) (nBlockHeight winner) (payeeLevel winner)"
  then show "ProcessMessageMasternodePayments env pfrom_nVersion ''mnw'' winner0 s = (s, [])"
    using assms by (auto simp: ProcessMessageMasternodePayments_def Let_def)
next
  assume a: "winner_mn \<noteq> None
          \<and> map_of (mapMasternodePayeeVotes s) (GetHash env winner) = None
          \<and> nFirstBlock env (pindex_nHeight tip) (payeeLevel winner) \<le> nBlockHeight winner
          \<and> nBlockHeight winner \<le> pindex_nHeight tip + 20
          \<and> fst (IsValid env winner)"
    and "CanVote s (prevout (vinMasternode winner)) (nBlockHeight winner) (payeeLevel winner)
               \<and> \<not> SignatureValid env winner"
  then show "ProcessMessageMasternodePayments env pfrom_nVersion ''mnw'' winner0 s =
               (s, (if IsSynced env \<and> TRY_LOCK_cs_main_Misbehaving env then [Misbehaving 20] else [])
                   @ [AskForMN (vinMasternode winner)])"
    using assms by (auto simp: ProcessMessageMasternodePayments_def Let_def)
next
  fix n
  assume "Misbehaving n \<in> set (snd (ProcessMessageMasternodePayments env pfrom_nVersion ''mnw''
                                            winner0 s))"
  then show "n = 20"
    using IsValid_scores [of n env winner] assms
    by (auto simp: ProcessMessageMasternodePayments_def Let_def split: if_splits)
qed

text \<open>
  Claim C9 gives the peer a score of 2 for an unknown payee and of 1 for a second vote of
  a voter. Both calls are commented out in the source: the handler answers an unknown
  payee with a request to the registry only, and a second vote with nothing.
\<close>

theorem mnw_scores_counterexample:
  "ProcessMessageMasternodePayments env_net 70000 ''mnw'' (vote_for 1 5001 [2000] 3) empty_store
     = (empty_store, [AskForMN (voter_vin 2100)])
   \<and> ProcessMessageMasternodePayments env_net 70000 ''mnw''
       ((vote_for 1 5001 [2000] 3)\<lparr>payeeVin := CTxIn_null\<rparr>) empty_store
     = (empty_store, [DsegUpdate])
   \<and> ProcessMessageMasternodePayments env_net 70000 ''mnw'' (vote_for 1 5001 [6] 3)
       (admit_all env_net [vote_for 1 5001 [5] 3] empty_store)
     = (admit_all env_net [vote_for 1 5001 [5] 3] empty_store, [])"
  by (simp add: env_net_def env0_def mn_of_def vote_for_def voter_vin_def toy_hash_def empty_store_def
        admit_all_def ProcessMessageMasternodePayments_def resolve_winner_def CTxIn_null_def
        nFirstBlock_def IsValid_def CanVote_def SignatureValid_def strMessage_def
        MNPAYMENTS_SIGNATURES_TOTAL_def AddWinningMasternode_def blocks_at_def AddPayee_def
        CMasternodeBlockPayees_new_def signed_divide_int_def Let_def)

text \<open>
  The three drops on the example network, the last one a vote with a wrong signature.
\<close>

theorem mnw_peer_scores_witness:
  "IsBlockchainSynced env_net \<and> \<not> fLiteMode env_net \<and> ActiveProtocol env_net \<le> 70000
   \<and> TRY_LOCK_cs_main env_net
   \<and> chainActive_Tip env_net = Some \<lparr>phashBlock = 7, pindex_nHeight = 5000\<rparr>
   \<and> resolve_winner env_net (vote_for 1 5001 [2000] 3) = (None, vote_for 1 5001 [2000] 3)
   \<and> ProcessMessageMasternodePayments env_net 70000 ''mnw'' (vote_for 1 5001 [2000] 3) empty_store
       = (empty_store, [AskForMN (voter_vin 2100)])
   \<and> resolve_winner env_net (vote_for 1 5001 [6] 3)
       = (Some (mn_of (voter_vin 106)), vote_for 1 5001 [6] 3)
   \<and> \<not> CanVote (admit_all env_net [vote_for 1 5001 [5] 3] empty_store) (1, 0) 5001 3
   \<and> ProcessMessageMasternodePayments env_net 70000 ''mnw'' (vote_for 1 5001 [6] 3)
       (admit_all env_net [vote_for 1 5001 [5] 3] empty_store)
       = (admit_all env_net [vote_for 1 5001 [5] 3] empty_store, [])
   \<and> \<not> SignatureValid env_net ((vote_for 1 5001 [6] 3)\<lparr>vchSig := [0]\<rparr>)
   \<and> ProcessMessageMasternodePayments env_net 70000 ''mnw''
       ((vote_for 1 5001 [6] 3)\<lparr>vchSig := [0]\<rparr>) empty_store
       = (empty_store, [Misbehaving 20, AskForMN (voter_vin 1)])"
proof -
  have ev: ?thesis
    by (simp add: env_net_def env0_def mn_of_def vote_for_def voter_vin_def toy_hash_def empty_store_def
        admit_all_def ProcessMessageMasternodePayments_def resolve_winner_def CTxIn_null_def
        nFirstBlock_def IsValid_def CanVote_def SignatureValid_def strMessage_def
        MNPAYMENTS_SIGNATURES_TOTAL_def AddWinningMasternode_def blocks_at_def AddPayee_def
        CMasternodeBlockPayees_new_def signed_divide_int_def Let_def)
  show ?thesis
    using mnw_peer_scores [of env_net 70000 "\<lparr>phashBlock = 7, pindex_nHeight = 5000\<rparr>"
        "vote_for 1 5001 [2000] 3" None "vote_for 1 5001 [2000] 3" empty_store]
      ev
    by fast
qed

section \<open>Two votes of one voter\<close>

text \<open>
  Claim C4 says that no voter has two votes for one height and tier in any state reached
  through the inbound handler and the vote producer. The handler asks \<open>CanVote\<close>; the
  producer does not. When a vote signed with this node's own masternode key arrives from a
  peer for height 5001 and tier 3, and \<open>ProcessBlock(5001)\<close> then nominates another payee,
  the store holds two votes of the voter for that height and tier.
\<close>

theorem double_vote_by_producer:
  "fst (ProcessMessageMasternodePayments env_net 70000 ''mnw'' (vote_for 1 5001 [5] 3) empty_store)
     = admit_all env_net [vote_for 1 5001 [5] 3] empty_store
   \<and> activeMasternode_vin env_net = vinMasternode (vote_for 1 5001 [5] 3)
   \<and> fst (ProcessBlock env_net (admit_all env_net [vote_for 1 5001 [5] 3] empty_store) 5001)
   \<and> map (\<lambda>(k, w). (prevout (vinMasternode w), nBlockHeight w, payeeLevel w, payee w))
       (mapMasternodePayeeVotes double_vote_store)
     = [((1, 0), 5001, 3, [5]), ((1, 0), 5001, 3, [6])]"
  by (simp add: double_vote_store_def ProcessBlock_def Sign_def upt_rec env_net_def env0_def mn_of_def vote_for_def voter_vin_def toy_hash_def empty_store_def
        admit_all_def ProcessMessageMasternodePayments_def resolve_winner_def CTxIn_null_def
        nFirstBlock_def IsValid_def CanVote_def SignatureValid_def strMessage_def
        MNPAYMENTS_SIGNATURES_TOTAL_def AddWinningMasternode_def blocks_at_def AddPayee_def
        CMasternodeBlockPayees_new_def signed_divide_int_def Let_def)

end
